theory Spec2Isabelle
  imports Complex_Main "HOL-Library.AList"
begin

section \<open>Data model of the Textworld plugin (src/main.py)\<close>

text \<open>
  Python \<open>str\<close> is a sequence of Unicode code points, and \<open>len\<close> and slicing count
  code points; a string is therefore a list of code points. The source's literals that
  are not ASCII are written out as their code points, with a translation beside them.
  A Python \<open>dict\<close> keeps insertion order: it is an association list, \<open>d[k] = v\<close> is
  \<open>AList.update\<close> (an existing key keeps its place, a new key goes last),
  \<open>d.pop(k, None)\<close> is \<open>AList.delete\<close> and \<open>d.get(k)\<close> is \<open>map_of\<close>.
  \<open>time.time()\<close> is the parameter \<open>now\<close> of the operations that read the clock.
\<close>

type_synonym pystr = "nat list"

type_synonym ('k, 'v) dict = "('k \<times> 'v) list"

definition keys :: "('k, 'v) dict \<Rightarrow> 'k set" where
  "keys d = fst ` set d"

definition dict_values :: "('k, 'v) dict \<Rightarrow> 'v list" where
  "dict_values d = map snd d"

definition map_values :: "('v \<Rightarrow> 'w) \<Rightarrow> ('k, 'v) dict \<Rightarrow> ('k, 'w) dict" where
  "map_values f d = map (\<lambda>(k, v). (k, f v)) d"

datatype RoomStatus = WAITING | CHARACTER_CREATION | ACTIVE | PAUSED | CLOSED

datatype PlayerStatus =
  PLAYER_ACTIVE | PENDING | TIMEOUT | ACTED | CREATING_CHAR | CHAR_DONE

record Player =
  player_id :: pystr
  player_name :: pystr
  unified_msg_origin :: pystr
  character_name :: "pystr option"
  character_setting :: "pystr option"
  status :: PlayerStatus
  join_time :: real
  last_action_time :: "real option"
  current_action :: "pystr option"

text \<open>The constructor call \<open>Player(player_id=..., player_name=..., unified_msg_origin=...)\<close>
  with the dataclass defaults.\<close>

definition new_Player :: "pystr \<Rightarrow> pystr \<Rightarrow> pystr \<Rightarrow> real \<Rightarrow> Player" where
  "new_Player pid pname umo now =
     \<lparr>player_id = pid, player_name = pname, unified_msg_origin = umo,
      character_name = None, character_setting = None, status = PLAYER_ACTIVE,
      join_time = now, last_action_time = None, current_action = None\<rparr>"

definition reset_for_new_round :: "Player \<Rightarrow> Player" where
  "reset_for_new_round p = p\<lparr>status := PLAYER_ACTIVE, current_action := None\<rparr>"

text \<open>Truthiness of an optional string: neither \<open>None\<close> nor empty.\<close>

definition truthy :: "pystr option \<Rightarrow> bool" where
  "truthy s = (case s of None \<Rightarrow> False | Some t \<Rightarrow> t \<noteq> [])"

text \<open>\<open>p.character_name or p.player_name\<close>\<close>

definition display_name :: "Player \<Rightarrow> pystr" where
  "display_name p =
     (case character_name p of
        None \<Rightarrow> player_name p
      | Some n \<Rightarrow> if n \<noteq> [] then n else player_name p)"

record PendingConfig =
  pc_timeout :: "int option"
  correction_text :: "pystr option"

record GameHistory =
  round_number :: int
  player_actions :: "(pystr, pystr) dict"
  dm_response :: pystr
  timestamp :: real

record Room =
  room_id :: pystr
  room_name :: pystr
  host_id :: pystr
  host_umo :: pystr
  world_setting :: pystr
  original_world_setting :: "pystr option"
  room_status :: RoomStatus
  paused :: bool
  active_players :: "(pystr, Player) dict"
  pending_players :: "(pystr, Player) dict"
  timeout :: int
  char_creation_timeout :: int
  pending_config :: PendingConfig
  current_round :: int
  round_start_time :: "real option"
  char_creation_start_time :: "real option"
  history :: "GameHistory list"
  created_at :: real

subsection \<open>Methods of Room\<close>

definition get_all_players :: "Room \<Rightarrow> Player list" where
  "get_all_players r = dict_values (active_players r) @ dict_values (pending_players r)"

definition get_unique_origins :: "Room \<Rightarrow> pystr list" where
  "get_unique_origins r = remdups (map unified_msg_origin (get_all_players r))"

definition get_active_player_count :: "Room \<Rightarrow> int" where
  "get_active_player_count r = int (length (active_players r))"

definition is_host :: "Room \<Rightarrow> pystr \<Rightarrow> bool" where
  "is_host r pid = (pid = host_id r)"

text \<open>
  \<open>activate_pending_players\<close>: the loop over \<open>pending_players.items()\<close> sets each
  player's status and stores the player under its key in \<open>active_players\<close>; then the
  pending dict is cleared.
\<close>

definition activate_pending_players :: "Room \<Rightarrow> Room" where
  "activate_pending_players r =
     r\<lparr>active_players :=
          fold (\<lambda>(pid, p) act. AList.update pid (p\<lparr>status := PLAYER_ACTIVE\<rparr>) act)
            (pending_players r) (active_players r),
       pending_players := []\<rparr>"

definition apply_pending_config :: "Room \<Rightarrow> Room" where
  "apply_pending_config r =
     (case pc_timeout (pending_config r) of
        None \<Rightarrow> r
      | Some t \<Rightarrow> r\<lparr>timeout := t\<rparr>)"

definition start_character_creation :: "real \<Rightarrow> Room \<Rightarrow> Room" where
  "start_character_creation now r =
     r\<lparr>room_status := CHARACTER_CREATION,
       char_creation_start_time := Some now,
       active_players := map_values (\<lambda>p. p\<lparr>status := CREATING_CHAR\<rparr>) (active_players r)\<rparr>"

definition check_all_characters_done :: "Room \<Rightarrow> bool" where
  "check_all_characters_done r =
     list_all (\<lambda>p. status p = CHAR_DONE) (dict_values (active_players r))"

definition start_new_round :: "real \<Rightarrow> Room \<Rightarrow> Room" where
  "start_new_round now r =
     r\<lparr>current_round := current_round r + 1,
       round_start_time := Some now,
       active_players := map_values reset_for_new_round (active_players r)\<rparr>"

definition check_all_players_acted :: "Room \<Rightarrow> bool" where
  "check_all_players_acted r =
     list_all (\<lambda>p. status p \<noteq> PLAYER_ACTIVE) (dict_values (active_players r))"

definition check_all_players_timeout :: "Room \<Rightarrow> bool" where
  "check_all_players_timeout r =
     list_all (\<lambda>p. status p = TIMEOUT) (dict_values (active_players r))"

text \<open>
  \<open>get_round_actions\<close>: a dict comprehension over the active players with a truthy
  \<open>current_action\<close>, keyed by \<open>character_name or player_name\<close>; a later player with
  the same display name overwrites the entry of an earlier one.
\<close>

definition get_round_actions :: "Room \<Rightarrow> (pystr, pystr) dict" where
  "get_round_actions r =
     fold (\<lambda>p acc. if truthy (current_action p)
                    then AList.update (display_name p) (the (current_action p)) acc
                    else acc)
       (dict_values (active_players r)) []"

section \<open>RoomManager\<close>

text \<open>The result strings of the registry operations (code points, with a translation).\<close>

definition msg_room_not_found :: pystr where
  \<comment> \<open>"the room does not exist"\<close>
  "msg_room_not_found = [25151, 38388, 19981, 23384, 22312]"

definition msg_room_closed :: pystr where
  \<comment> \<open>"the room is closed"\<close>
  "msg_room_closed = [25151, 38388, 24050, 20851, 38381]"

definition msg_game_started :: pystr where
  \<comment> \<open>"the game has started"\<close>
  "msg_game_started = [28216, 25103, 24050, 24320, 22987]"

definition msg_in_other_room :: pystr where
  \<comment> \<open>"already in another room"\<close>
  "msg_in_other_room = [24050, 22312, 20854, 20182, 25151, 38388]"

definition msg_room_full :: pystr where
  \<comment> \<open>"the room is full"\<close>
  "msg_room_full = [25151, 38388, 24050, 28385]"

definition msg_joined :: pystr where
  \<comment> \<open>"joined"\<close>
  "msg_joined = [24050, 21152, 20837]"

definition msg_not_in_room :: pystr where
  \<comment> \<open>"not in a room"\<close>
  "msg_not_in_room = [19981, 22312, 25151, 38388, 20013]"

definition msg_host_left :: pystr where
  \<comment> \<open>"the host left, the room is closed"\<close>
  "msg_host_left = [25151, 20027, 31163, 24320, 65292, 25151, 38388, 20851, 38381]"

definition msg_left :: pystr where
  \<comment> \<open>"left"\<close>
  "msg_left = [24050, 31163, 24320]"

definition msg_not_host :: pystr where
  \<comment> \<open>"not the host"\<close>
  "msg_not_host = [38750, 25151, 20027]"

definition msg_paused :: pystr where
  \<comment> \<open>"paused": the text of both the success and the already-paused rejection\<close>
  "msg_paused = [24050, 26242, 20572]"

definition msg_not_paused :: pystr where
  \<comment> \<open>"not paused"\<close>
  "msg_not_paused = [26410, 26242, 20572]"

definition msg_resumed :: pystr where
  \<comment> \<open>"resumed"\<close>
  "msg_resumed = [24050, 24674, 22797]"

record RoomManager =
  rooms :: "(pystr, Room) dict"
  player_room_map :: "(pystr, pystr) dict"
  max_rooms :: int

definition RoomManager_init :: "int \<Rightarrow> RoomManager" where
  "RoomManager_init n = \<lparr>rooms = [], player_room_map = [], max_rooms = n\<rparr>"

definition can_create_room :: "RoomManager \<Rightarrow> bool" where
  "can_create_room m = (int (length (rooms m)) < max_rooms m)"

text \<open>
  \<open>create_room\<close>. The identifier \<open>str(uuid.uuid4())[:8]\<close> is drawn outside the program:
  it is the parameter \<open>new_id\<close>.
\<close>

definition create_room ::
  "RoomManager \<Rightarrow> pystr \<Rightarrow> pystr \<Rightarrow> pystr \<Rightarrow> pystr \<Rightarrow> pystr \<Rightarrow> int \<Rightarrow> int \<Rightarrow> pystr option
     \<Rightarrow> pystr \<Rightarrow> real \<Rightarrow> RoomManager \<times> Room option" where
  "create_room m hid hname humo rname world tmo char_tmo orig new_id now =
     (if \<not> can_create_room m \<or> hid \<in> keys (player_room_map m) then (m, None)
      else
        let host_player = new_Player hid hname humo now;
            room = \<lparr>room_id = new_id, room_name = rname, host_id = hid, host_umo = humo,
                    world_setting = world, original_world_setting = orig,
                    room_status = WAITING, paused = False,
                    active_players = [(hid, host_player)], pending_players = [],
                    timeout = tmo, char_creation_timeout = char_tmo,
                    pending_config = \<lparr>pc_timeout = None, correction_text = None\<rparr>,
                    current_round = 0, round_start_time = None,
                    char_creation_start_time = None, history = [], created_at = now\<rparr>
        in (m\<lparr>rooms := AList.update new_id room (rooms m),
               player_room_map := AList.update hid new_id (player_room_map m)\<rparr>,
            Some room))"

definition get_room :: "RoomManager \<Rightarrow> pystr \<Rightarrow> Room option" where
  "get_room m rid = map_of (rooms m) rid"

text \<open>\<open>self.rooms.get(room_id) if room_id else None\<close>: an empty identifier is falsy.\<close>

definition get_room_by_player :: "RoomManager \<Rightarrow> pystr \<Rightarrow> Room option" where
  "get_room_by_player m pid =
     (case map_of (player_room_map m) pid of
        None \<Rightarrow> None
      | Some rid \<Rightarrow> if rid \<noteq> [] then map_of (rooms m) rid else None)"

text \<open>
  A Room is a mutable object held by the \<open>rooms\<close> dict: an assignment to a field of the
  room found under \<open>rid\<close> is the replacement of the entry under \<open>rid\<close>. Every Room
  object is stored once, by \<open>create_room\<close>, so no second entry aliases it.
\<close>

definition put_room :: "RoomManager \<Rightarrow> pystr \<Rightarrow> Room \<Rightarrow> RoomManager" where
  "put_room m rid r = m\<lparr>rooms := AList.update rid r (rooms m)\<rparr>"

definition join_room ::
  "RoomManager \<Rightarrow> pystr \<Rightarrow> pystr \<Rightarrow> pystr \<Rightarrow> pystr \<Rightarrow> int \<Rightarrow> real
     \<Rightarrow> RoomManager \<times> bool \<times> pystr" where
  "join_room m rid pid pname pumo max_players now =
     (case get_room m rid of
        None \<Rightarrow> (m, False, msg_room_not_found)
      | Some room \<Rightarrow>
          if room_status room = CLOSED then (m, False, msg_room_closed)
          else if room_status room \<in> set [CHARACTER_CREATION, ACTIVE]
            then (m, False, msg_game_started)
          else if pid \<in> keys (player_room_map m) then (m, False, msg_in_other_room)
          else if get_active_player_count room + int (length (pending_players room))
                    \<ge> max_players
            then (m, False, msg_room_full)
          else
            let player = new_Player pid pname pumo now;
                room' = (if paused room
                         then room\<lparr>pending_players :=
                                AList.update pid (player\<lparr>status := PENDING\<rparr>)
                                  (pending_players room)\<rparr>
                         else room\<lparr>active_players :=
                                AList.update pid player (active_players room)\<rparr>)
            in ((put_room m rid room')
                  \<lparr>player_room_map := AList.update pid rid (player_room_map m)\<rparr>,
                True, msg_joined))"

text \<open>
  \<open>close_room\<close>. The status CLOSED is written to the Room object just before the
  object is deleted from the registry; the registry no longer holds it afterwards.
  \<open>del self.rooms[room_id]\<close> cannot raise: the room was found under that key.
\<close>

definition close_room :: "RoomManager \<Rightarrow> pystr \<Rightarrow> RoomManager \<times> bool" where
  "close_room m rid =
     (case get_room m rid of
        None \<Rightarrow> (m, False)
      | Some room \<Rightarrow>
          (m\<lparr>player_room_map :=
                fold (\<lambda>p d. AList.delete (player_id p) d) (get_all_players room)
                  (player_room_map m),
             rooms := AList.delete rid (rooms m)\<rparr>,
           True))"

text \<open>
  \<open>leave_room\<close>. The room is the object found through the reverse index, under the key
  \<open>rid\<close>; \<open>del self.player_room_map[player_id]\<close> cannot raise, the key was just read.
\<close>

definition leave_room :: "RoomManager \<Rightarrow> pystr \<Rightarrow> RoomManager \<times> bool \<times> pystr" where
  "leave_room m pid =
     (case get_room_by_player m pid of
        None \<Rightarrow> (m, False, msg_not_in_room)
      | Some room \<Rightarrow>
          let rid = the (map_of (player_room_map m) pid);
              room' = room\<lparr>active_players := AList.delete pid (active_players room),
                          pending_players := AList.delete pid (pending_players room)\<rparr>;
              m' = (put_room m rid room')
                     \<lparr>player_room_map := AList.delete pid (player_room_map m)\<rparr>
          in if pid = host_id room'
             then (fst (close_room m' (room_id room')), True, msg_host_left)
             else (m', True, msg_left))"

definition get_all_rooms :: "RoomManager \<Rightarrow> Room list" where
  "get_all_rooms m = dict_values (rooms m)"

definition pause_room :: "RoomManager \<Rightarrow> pystr \<Rightarrow> pystr \<Rightarrow> RoomManager \<times> bool \<times> pystr" where
  "pause_room m rid pid =
     (case get_room m rid of
        None \<Rightarrow> (m, False, msg_room_not_found)
      | Some room \<Rightarrow>
          if \<not> is_host room pid then (m, False, msg_not_host)
          else if paused room then (m, False, msg_paused)
          else (put_room m rid (room\<lparr>paused := True, room_status := PAUSED\<rparr>),
                True, msg_paused))"

definition resume_room :: "RoomManager \<Rightarrow> pystr \<Rightarrow> pystr \<Rightarrow> RoomManager \<times> bool \<times> pystr" where
  "resume_room m rid pid =
     (case get_room m rid of
        None \<Rightarrow> (m, False, msg_room_not_found)
      | Some room \<Rightarrow>
          if \<not> is_host room pid then (m, False, msg_not_host)
          else if \<not> paused room then (m, False, msg_not_paused)
          else (put_room m rid
                  ((activate_pending_players (apply_pending_config room))
                     \<lparr>paused := False, room_status := ACTIVE\<rparr>),
                True, msg_resumed))"

section \<open>The plugin: generation backend, timers and round orchestration\<close>

text \<open>
  The generation backend is outside the program. One call of it has one of three
  outcomes, given to the model as a parameter: no provider is configured
  (\<open>get_current_chat_provider_id\<close> returns a falsy value), a call raises (with the text
  of the exception), or \<open>llm_generate\<close> returns; the returned value is \<open>None\<close> for a
  missing response or a missing \<open>completion_text\<close>. The prompt sent to the backend
  (\<open>build_game_context\<close> and the f-strings) does not influence the state and is left out.
\<close>

datatype llm_outcome = NoProvider | LlmRaised pystr | LlmReturned "pystr option"

definition ascii :: "string \<Rightarrow> pystr" where
  "ascii s = map of_char s"

text \<open>\<open>str.isspace\<close>: the code points Python counts as whitespace.\<close>

definition py_isspace :: "nat \<Rightarrow> bool" where
  "py_isspace c =
     (c \<in> set [9, 10, 11, 12, 13, 28, 29, 30, 31, 32, 133, 160, 5760, 8192, 8193, 8194,
               8195, 8196, 8197, 8198, 8199, 8200, 8201, 8202, 8232, 8233, 8239, 8287,
               12288])"

definition strip :: "pystr \<Rightarrow> pystr" where
  "strip s = rev (dropWhile py_isspace (rev (dropWhile py_isspace s)))"

text \<open>\<open>str.lower\<close> on the ASCII letters; other code points are left as they are.\<close>

definition lower :: "pystr \<Rightarrow> pystr" where
  "lower s = map (\<lambda>c. if 65 \<le> c \<and> c \<le> 90 then c + 32 else c) s"

text \<open>\<open>s[:n]\<close>: a negative bound counts from the end.\<close>

definition slice_to :: "'a list \<Rightarrow> int \<Rightarrow> 'a list" where
  "slice_to s n = (if 0 \<le> n then take (nat n) s else take (length s - nat (- n)) s)"

definition no_response :: pystr where
  \<comment> \<open>"(no response)", in full-width parentheses\<close>
  "no_response = [65288, 26080, 21709, 24212, 65289]"

definition default_opening :: pystr where
  \<comment> \<open>"the adventure begins..."\<close>
  "default_opening = [20882, 38505, 24320, 22987, 20102, 46, 46, 46]"

definition default_character_setting :: pystr where
  \<comment> \<open>"a mysterious adventurer"\<close>
  "default_character_setting = [19968, 20301, 31070, 31192, 30340, 20882, 38505, 32773]"

text \<open>
  A timer is an asyncio task that sleeps and then runs its \<open>check\<close>; what the model
  keeps of it is what the closure is bound to: the kind, the room identifier and the
  duration of the sleep. \<open>timeout_tasks\<close> maps a task identifier to the timer started
  under it.
\<close>

datatype timer_task = RoundTimer pystr int | CharTimer pystr int

definition char_task_id :: "pystr \<Rightarrow> pystr" where
  \<comment> \<open>\<open>f"char_{room.room_id}"\<close>\<close>
  "char_task_id rid = ascii ''char_'' @ rid"

text \<open>
  Outbound messages are handed to the transport; the model keeps which notice went to
  which origins, not the formatted text.
\<close>

datatype notice =
    NoValidActions
  | NoAIService
  | RoundResult int "(pystr, pystr) dict" pystr
  | RoundError
  | PlayersTimedOut "pystr list"
  | AllTimedOutRoomClosed
  | DefaultCharacters "pystr list"
  | GameStarted pystr

record plugin =
  room_manager :: RoomManager
  timeout_tasks :: "(pystr, timer_task) dict"
  outbox :: "(pystr list \<times> notice) list"

definition broadcast :: "plugin \<Rightarrow> Room \<Rightarrow> notice \<Rightarrow> plugin" where
  "broadcast p room n = p\<lparr>outbox := outbox p @ [(get_unique_origins room, n)]\<rparr>"

definition store_room :: "plugin \<Rightarrow> pystr \<Rightarrow> Room \<Rightarrow> plugin" where
  \<comment> \<open>a field assignment on the Room object held under \<open>rid\<close>\<close>
  "store_room p rid r = p\<lparr>room_manager := put_room (room_manager p) rid r\<rparr>"

text \<open>\<open>_stop_timeout\<close>: the task is popped from the dict and, if not done, cancelled.\<close>

definition stop_timeout :: "plugin \<Rightarrow> pystr \<Rightarrow> plugin" where
  "stop_timeout p task_id = p\<lparr>timeout_tasks := AList.delete task_id (timeout_tasks p)\<rparr>"

text \<open>\<open>_start_timeout\<close>: stops the timer under the room's identifier, then creates and
  registers the task of a new one.\<close>

definition start_timeout :: "plugin \<Rightarrow> Room \<Rightarrow> plugin" where
  "start_timeout p room =
     (let p1 = stop_timeout p (room_id room)
      in p1\<lparr>timeout_tasks :=
              AList.update (room_id room) (RoundTimer (room_id room) (timeout room))
                (timeout_tasks p1)\<rparr>)"

definition start_char_creation_timeout :: "plugin \<Rightarrow> Room \<Rightarrow> plugin" where
  "start_char_creation_timeout p room =
     (let task_id = char_task_id (room_id room);
          p1 = stop_timeout p task_id
      in p1\<lparr>timeout_tasks :=
              AList.update task_id (CharTimer (room_id room) (char_creation_timeout room))
                (timeout_tasks p1)\<rparr>)"

subsection \<open>Round resolution\<close>

text \<open>
  \<open>_process_round\<close> is a coroutine. It runs without interruption up to its first
  \<open>await\<close> of the backend, holding the snapshot \<open>actions\<close> in a local variable, and
  resumes when the backend has answered. \<open>process_round_begin\<close> is the part before the
  await: \<open>None\<close> when the coroutine has returned already (no action recorded),
  \<open>Some actions\<close> when it is suspended. \<open>process_round_resume\<close> is the part after the
  await; it reads the Room object again (the object is shared and mutable) but uses the
  snapshot of the actions. \<open>process_round\<close> is the coroutine run without interruption.
  The room argument is the registry key of the Room object; every caller passes a room
  it has just read from the registry.
\<close>

definition process_round_begin ::
  "plugin \<Rightarrow> pystr \<Rightarrow> plugin \<times> (pystr, pystr) dict option" where
  "process_round_begin p rid =
     (case get_room (room_manager p) rid of
        None \<Rightarrow> (p, None)
      | Some room \<Rightarrow>
          let actions = get_round_actions room
          in if actions = [] then (broadcast p room NoValidActions, None)
             else (p, Some actions))"

definition process_round_resume ::
  "plugin \<Rightarrow> pystr \<Rightarrow> (pystr, pystr) dict \<Rightarrow> llm_outcome \<Rightarrow> real \<Rightarrow> plugin" where
  "process_round_resume p rid actions llm now =
     (case get_room (room_manager p) rid of
        None \<Rightarrow> p
      | Some room \<Rightarrow>
          (case llm of
             NoProvider \<Rightarrow> broadcast p room NoAIService
           | LlmRaised e \<Rightarrow> broadcast p room RoundError
           | LlmReturned resp \<Rightarrow>
               let dm = (if truthy resp then strip (the resp) else no_response);
                   room1 = room\<lparr>history := history room @
                                   [\<lparr>round_number = current_round room,
                                     player_actions = actions,
                                     dm_response = dm, timestamp = now\<rparr>],
                                pending_config :=
                                   (pending_config room)\<lparr>correction_text := None\<rparr>\<rparr>;
                   p1 = broadcast (store_room p rid room1) room1
                          (RoundResult (current_round room1) actions dm);
                   room2 = start_new_round now room1
               in start_timeout (store_room p1 rid room2) room2))"

definition process_round :: "plugin \<Rightarrow> pystr \<Rightarrow> llm_outcome \<Rightarrow> real \<Rightarrow> plugin" where
  "process_round p rid llm now =
     (case process_round_begin p rid of
        (p', None) \<Rightarrow> p'
      | (p', Some actions) \<Rightarrow> process_round_resume p' rid actions llm now)"

subsection \<open>The act command\<close>

datatype act_reply =
    ActUsage | ActNotInRoom | ActRoomPaused | ActNotStarted | ActNotActivePlayer
  | ActAlreadyActed | ActRecorded pystr

text \<open>
  \<open>cmd_act\<close> up to its call of \<open>_process_round\<close>: the new plugin state, the reply, and
  the registry key of the room to resolve when every active player has a status other
  than ACTIVE.
\<close>

definition cmd_act_accept ::
  "plugin \<Rightarrow> pystr \<Rightarrow> pystr \<Rightarrow> real \<Rightarrow> plugin \<times> act_reply \<times> pystr option" where
  "cmd_act_accept p pid action now =
     (if action = [] then (p, ActUsage, None)
      else
        (case get_room_by_player (room_manager p) pid of
           None \<Rightarrow> (p, ActNotInRoom, None)
         | Some room \<Rightarrow>
             if paused room then (p, ActRoomPaused, None)
             else if room_status room \<noteq> ACTIVE then (p, ActNotStarted, None)
             else
               (case map_of (active_players room) pid of
                  None \<Rightarrow> (p, ActNotActivePlayer, None)
                | Some player \<Rightarrow>
                    if status player = ACTED then (p, ActAlreadyActed, None)
                    else
                      let rid = the (map_of (player_room_map (room_manager p)) pid);
                          player' = player\<lparr>current_action := Some action, status := ACTED,
                                           last_action_time := Some now\<rparr>;
                          room' = room\<lparr>active_players :=
                                        AList.update pid player' (active_players room)\<rparr>;
                          p' = store_room p rid room'
                      in (p', ActRecorded (display_name player'),
                          if check_all_players_acted room' then Some rid else None))))"

definition cmd_act ::
  "plugin \<Rightarrow> pystr \<Rightarrow> pystr \<Rightarrow> llm_outcome \<Rightarrow> real \<Rightarrow> plugin \<times> act_reply" where
  "cmd_act p pid action llm now =
     (case cmd_act_accept p pid action now of
        (p', reply, None) \<Rightarrow> (p', reply)
      | (p', reply, Some rid) \<Rightarrow> (process_round p' rid llm now, reply))"

subsection \<open>The round timer\<close>

definition mark_timeouts :: "Room \<Rightarrow> Room" where
  "mark_timeouts r =
     r\<lparr>active_players :=
          map_values (\<lambda>p. if status p = PLAYER_ACTIVE then p\<lparr>status := TIMEOUT\<rparr> else p)
            (active_players r)\<rparr>"

text \<open>
  The \<open>check\<close> of \<open>_start_timeout\<close> after its sleep, up to its call of
  \<open>_process_round\<close>: the guard on the room, the marking of the players that have not
  acted, and either the closing of the room or the registry key of the room to resolve.
\<close>

definition round_timer_expire :: "plugin \<Rightarrow> pystr \<Rightarrow> plugin \<times> pystr option" where
  "round_timer_expire p rid =
     (case get_room (room_manager p) rid of
        None \<Rightarrow> (p, None)
      | Some r \<Rightarrow>
          if paused r \<or> room_status r \<noteq> ACTIVE then (p, None)
          else
            let timeout_players =
                  map display_name
                    (filter (\<lambda>q. status q = PLAYER_ACTIVE) (dict_values (active_players r)));
                r1 = mark_timeouts r;
                p1 = store_room p rid r1;
                p2 = (if timeout_players \<noteq> []
                      then broadcast p1 r1 (PlayersTimedOut timeout_players) else p1)
            in if check_all_players_timeout r1
               then ((broadcast p2 r1 AllTimedOutRoomClosed)
                       \<lparr>room_manager := fst (close_room (room_manager p2) rid)\<rparr>, None)
               else (p2, Some rid))"


subsection \<open>The character-creation timer and the start of the game\<close>

definition generate_opening :: "llm_outcome \<Rightarrow> pystr" where
  "generate_opening llm =
     (case llm of
        LlmReturned resp \<Rightarrow> if truthy resp then strip (the resp) else default_opening
      | _ \<Rightarrow> default_opening)"

definition start_game_after_characters ::
  "plugin \<Rightarrow> pystr \<Rightarrow> llm_outcome \<Rightarrow> real \<Rightarrow> plugin" where
  "start_game_after_characters p rid llm now =
     (case get_room (room_manager p) rid of
        None \<Rightarrow> p
      | Some room \<Rightarrow>
          let room1 = start_new_round now (room\<lparr>room_status := ACTIVE\<rparr>);
              opening = generate_opening llm;
              p1 = broadcast (store_room p rid room1) room1 (GameStarted opening)
          in start_timeout p1 room1)"

definition assign_default_characters :: "Room \<Rightarrow> Room" where
  "assign_default_characters r =
     r\<lparr>active_players :=
          map_values
            (\<lambda>p. if status p = CREATING_CHAR
                  then p\<lparr>character_name := Some (player_name p),
                         character_setting := Some default_character_setting,
                         status := CHAR_DONE\<rparr>
                  else p)
            (active_players r)\<rparr>"

text \<open>The \<open>check\<close> of \<open>_start_char_creation_timeout\<close> after its sleep.\<close>

definition char_timer_check :: "plugin \<Rightarrow> pystr \<Rightarrow> llm_outcome \<Rightarrow> real \<Rightarrow> plugin" where
  "char_timer_check p rid llm now =
     (case get_room (room_manager p) rid of
        None \<Rightarrow> p
      | Some r \<Rightarrow>
          if room_status r \<noteq> CHARACTER_CREATION then p
          else
            let timeout_players =
                  map player_name
                    (filter (\<lambda>q. status q = CREATING_CHAR) (dict_values (active_players r)));
                r1 = assign_default_characters r;
                p1 = store_room p rid r1;
                p2 = (if timeout_players \<noteq> []
                      then broadcast p1 r1 (DefaultCharacters timeout_players) else p1)
            in start_game_after_characters p2 rid llm now)"

section \<open>The creation wizard: the world-setting steps\<close>

datatype CreationStep =
  ROOM_NAME | STEP_TIMEOUT | WORLD_SETTING | WORLD_TOO_LONG | SUMMARIZING | CONFIRM

record PendingCreation =
  cr_player_id :: pystr
  cr_player_name :: pystr
  cr_player_umo :: pystr
  step :: CreationStep
  cr_room_name :: "pystr option"
  cr_timeout :: "int option"
  cr_world_setting :: "pystr option"
  cr_original_world_setting :: "pystr option"
  cr_created_at :: real

text \<open>The configuration values the world-setting steps read.\<close>

record config =
  world_setting_max_length :: int
  world_setting_summary_length :: int
  world_template :: pystr

definition kw_default :: pystr where
  \<comment> \<open>"default" (Chinese)\<close>
  "kw_default = [40664, 35748]"

definition kw_summarize :: pystr where
  \<comment> \<open>"summarize" (Chinese)\<close>
  "kw_summarize = [24635, 32467]"

definition kw_truncate :: pystr where
  \<comment> \<open>"truncate" (Chinese)\<close>
  "kw_truncate = [25130, 26029]"

definition kw_keep :: pystr where
  \<comment> \<open>"keep" (Chinese)\<close>
  "kw_keep = [20445, 30041]"

definition err_no_ai_service :: pystr where
  \<comment> \<open>"no AI service"\<close>
  "err_no_ai_service = [26080, 65, 73, 26381, 21153]"

definition err_summary_failed :: pystr where
  \<comment> \<open>"AI summary failed"\<close>
  "err_summary_failed = [65, 73, 24635, 32467, 22833, 36133]"

datatype wizard_reply =
    ShowConfirm
  | WorldTooShort
  | WorldTooLongChoices nat
  | SummarizingNotice nat
  | SummaryDone nat nat
  | SummaryFailed "pystr option"
  | TruncatedNotice int
  | KeptAllNotice nat
  | NewWorldSaved nat
  | StillTooLong nat
  | ChoiceHelp

definition handle_world_setting ::
  "config \<Rightarrow> PendingCreation \<Rightarrow> pystr \<Rightarrow> PendingCreation \<times> wizard_reply" where
  "handle_world_setting cfg pending txt =
     (if txt \<in> set [kw_default, ascii ''default''] \<and> world_template cfg \<noteq> []
      then (pending\<lparr>cr_world_setting := Some (world_template cfg), step := CONFIRM\<rparr>,
            ShowConfirm)
      else if length txt < 10 then (pending, WorldTooShort)
      else if int (length txt) > world_setting_max_length cfg
        then (pending\<lparr>cr_original_world_setting := Some txt, step := WORLD_TOO_LONG\<rparr>,
              WorldTooLongChoices (length txt))
      else (pending\<lparr>cr_world_setting := Some txt, step := CONFIRM\<rparr>, ShowConfirm))"

definition summarize_world_setting ::
  "config \<Rightarrow> pystr \<Rightarrow> llm_outcome \<Rightarrow> bool \<times> pystr \<times> pystr option" where
  "summarize_world_setting cfg txt llm =
     (case llm of
        NoProvider \<Rightarrow>
          (False, slice_to txt (world_setting_max_length cfg), Some err_no_ai_service)
      | LlmReturned resp \<Rightarrow>
          if truthy resp \<and> length (strip (the resp)) > 50
          then (True, strip (the resp), None)
          else (False, slice_to txt (world_setting_max_length cfg), Some err_summary_failed)
      | LlmRaised e \<Rightarrow>
          (False, slice_to txt (world_setting_max_length cfg), Some (slice_to e 20)))"

text \<open>
  \<open>_handle_world_too_long_choice\<close>. In the summarize branch the step is SUMMARIZING
  while the backend is awaited; the model gives the step after the backend's answer.
\<close>

definition handle_world_too_long_choice ::
  "config \<Rightarrow> PendingCreation \<Rightarrow> pystr \<Rightarrow> llm_outcome
     \<Rightarrow> PendingCreation \<times> wizard_reply list" where
  "handle_world_too_long_choice cfg pending txt llm =
     (let choice = strip (lower txt);
          original = (case cr_original_world_setting pending of
                        None \<Rightarrow> [] | Some t \<Rightarrow> t)
      in if choice \<in> set [kw_summarize, ascii ''1'', ascii ''ai'', ascii ''summary'']
         then
           (case summarize_world_setting cfg original llm of
              (success, summary, err) \<Rightarrow>
                if success
                then (pending\<lparr>cr_world_setting := Some summary, step := CONFIRM\<rparr>,
                      [SummarizingNotice (length original),
                       SummaryDone (length original) (length summary), ShowConfirm])
                else (pending\<lparr>step := WORLD_TOO_LONG\<rparr>,
                      [SummarizingNotice (length original), SummaryFailed err]))
         else if choice \<in> set [kw_truncate, ascii ''2'', ascii ''cut'', ascii ''truncate'']
         then (pending\<lparr>cr_world_setting :=
                          Some (slice_to original (world_setting_max_length cfg)),
                        step := CONFIRM\<rparr>,
               [TruncatedNotice (world_setting_max_length cfg), ShowConfirm])
         else if choice \<in> set [kw_keep, ascii ''3'', ascii ''keep'', ascii ''full'']
         then (pending\<lparr>cr_world_setting := Some original, step := CONFIRM\<rparr>,
               [KeptAllNotice (length original), ShowConfirm])
         else if length txt \<ge> 10
         then (if int (length txt) \<le> world_setting_max_length cfg
               then (pending\<lparr>cr_world_setting := Some txt,
                              cr_original_world_setting := None, step := CONFIRM\<rparr>,
                     [NewWorldSaved (length txt), ShowConfirm])
               else (pending\<lparr>cr_original_world_setting := Some txt\<rparr>,
                     [StillTooLong (length txt)]))
         else (pending, [ChoiceHelp]))"

section \<open>Sequences of registry operations\<close>

text \<open>
  One constructor per operation of RoomManager that changes the registry, with the
  arguments of the call. \<open>run\<close> applies a sequence of calls to a registry, keeping the
  registry each call leaves and dropping what the call returns.
\<close>

datatype registry_op =
    Create pystr pystr pystr pystr pystr int int "pystr option" pystr real
  | Join pystr pystr pystr pystr int real
  | Leave pystr
  | Close pystr
  | Pause pystr pystr
  | Resume pystr pystr

fun apply_registry_op :: "RoomManager \<Rightarrow> registry_op \<Rightarrow> RoomManager" where
  "apply_registry_op m (Create hid hname humo rname world tmo ctmo orig new_id now) =
     fst (create_room m hid hname humo rname world tmo ctmo orig new_id now)"
| "apply_registry_op m (Join rid pid pname pumo maxp now) =
     fst (join_room m rid pid pname pumo maxp now)"
| "apply_registry_op m (Leave pid) = fst (leave_room m pid)"
| "apply_registry_op m (Close rid) = fst (close_room m rid)"
| "apply_registry_op m (Pause rid pid) = fst (pause_room m rid pid)"
| "apply_registry_op m (Resume rid pid) = fst (resume_room m rid pid)"

fun run :: "RoomManager \<Rightarrow> registry_op list \<Rightarrow> RoomManager" where
  "run m [] = m"
| "run m (op # ops) = run (apply_registry_op m op) ops"

text \<open>
  The identifiers drawn for \<open>create_room\<close> are fresh: each is different from the
  identifier of every room in the registry at the moment of the call.
\<close>

fun fresh_ids :: "RoomManager \<Rightarrow> registry_op list \<Rightarrow> bool" where
  "fresh_ids m [] = True"
| "fresh_ids m (op # ops) =
     ((case op of
         Create hid hname humo rname world tmo ctmo orig new_id now \<Rightarrow>
           new_id \<notin> keys (rooms m)
       | _ \<Rightarrow> True)
      \<and> fresh_ids (apply_registry_op m op) ops)"

text \<open>The identities a room holds: the keys of its active and of its pending dict.\<close>

definition members :: "Room \<Rightarrow> pystr set" where
  "members r = keys (active_players r) \<union> keys (pending_players r)"

text \<open>
  The consistency of a registry: every room is stored under its own identifier, every
  player is stored under its own identity, no identity is both active and pending in a
  room, and the reverse index maps an identity to a room exactly when that room holds
  it.
\<close>

definition players_keyed :: "(pystr, Player) dict \<Rightarrow> bool" where
  "players_keyed d = (\<forall>(k, q) \<in> set d. player_id q = k)"

definition registry_inv :: "RoomManager \<Rightarrow> bool" where
  "registry_inv m =
     ((\<forall>rid r. get_room m rid = Some r \<longrightarrow>
          room_id r = rid
          \<and> players_keyed (active_players r) \<and> players_keyed (pending_players r)
          \<and> keys (active_players r) \<inter> keys (pending_players r) = {})
      \<and> (\<forall>k rid. map_of (player_room_map m) k = Some rid \<longleftrightarrow>
                   (\<exists>r. get_room m rid = Some r \<and> k \<in> members r)))"
section \<open>Scenarios\<close>

text \<open>Concrete states on which the theorems below are exercised.\<close>

definition wizard_example :: PendingCreation where
  "wizard_example =
     \<lparr>cr_player_id = ascii ''u1'', cr_player_name = ascii ''Ann'',
      cr_player_umo = ascii ''g1'', step = WORLD_SETTING,
      cr_room_name = Some (ascii ''Cave''), cr_timeout = Some 60,
      cr_world_setting = None, cr_original_world_setting = None, cr_created_at = 0\<rparr>"

definition config_example :: config where
  "config_example =
     \<lparr>world_setting_max_length = 4000, world_setting_summary_length = 2000,
      world_template = []\<rparr>"

definition player_example :: "string \<Rightarrow> string \<Rightarrow> string \<Rightarrow> Player" where
  "player_example pid pname umo = new_Player (ascii pid) (ascii pname) (ascii umo) 0"

definition room_example :: Room where
  "room_example =
     \<lparr>room_id = ascii ''r1'', room_name = ascii ''Cave'', host_id = ascii ''h'',
      host_umo = ascii ''g1'', world_setting = ascii ''a dark cave'',
      original_world_setting = None, room_status = WAITING, paused = False,
      active_players =
        [(ascii ''h'', player_example ''h'' ''Hana'' ''g1''),
         (ascii ''a'', player_example ''a'' ''Ann'' ''g1''),
         (ascii ''b'', player_example ''b'' ''Bob'' ''g2''),
         (ascii ''c'', player_example ''c'' ''Cy'' ''g2'')],
      pending_players = [], timeout = 30, char_creation_timeout = 180,
      pending_config = \<lparr>pc_timeout = None, correction_text = None\<rparr>,
      current_round = 0, round_start_time = None, char_creation_start_time = None,
      history = [], created_at = 0\<rparr>"

definition example_ops :: "registry_op list" where
  "example_ops =
     [Create (ascii ''h'') (ascii ''Hana'') (ascii ''g1'') (ascii ''Cave'')
        (ascii ''a dark cave'') 30 180 None (ascii ''r1'') 0,
      Join (ascii ''r1'') (ascii ''a'') (ascii ''Ann'') (ascii ''g1'') 8 0,
      Join (ascii ''r1'') (ascii ''b'') (ascii ''Bob'') (ascii ''g2'') 8 0,
      Join (ascii ''r1'') (ascii ''c'') (ascii ''Cy'') (ascii ''g2'') 8 0]"

definition registry_example :: RoomManager where
  "registry_example = run (RoomManager_init 10) example_ops"

definition paused_room_example :: Room where
  "paused_room_example = room_example\<lparr>paused := True, room_status := PAUSED\<rparr>"

definition paused_registry_example :: RoomManager where
  "paused_registry_example = run registry_example [Pause (ascii ''r1'') (ascii ''h'')]"

definition active_room_example :: Room where
  "active_room_example = room_example\<lparr>paused := False, room_status := ACTIVE\<rparr>"

definition active_registry_example :: RoomManager where
  "active_registry_example =
     run registry_example [Pause (ascii ''r1'') (ascii ''h''), Resume (ascii ''r1'') (ascii ''h'')]"



definition duo_room_example :: Room where
  "duo_room_example =
     \<lparr>room_id = ascii ''r1'', room_name = ascii ''Cave'', host_id = ascii ''a'',
      host_umo = ascii ''g1'', world_setting = ascii ''a dark cave'',
      original_world_setting = None, room_status = ACTIVE, paused = False,
      active_players =
        [(ascii ''a'', (player_example ''a'' ''Ann'' ''g1'')
                         \<lparr>status := ACTED, current_action := Some (ascii ''go north''),
                          last_action_time := Some 3\<rparr>),
         (ascii ''b'', player_example ''b'' ''Bob'' ''g2'')],
      pending_players = [], timeout = 30, char_creation_timeout = 180,
      pending_config = \<lparr>pc_timeout = None, correction_text = None\<rparr>,
      current_round = 1, round_start_time = Some 0, char_creation_start_time = Some 0,
      history = [], created_at = 0\<rparr>"

definition duo_plugin_example :: plugin where
  "duo_plugin_example =
     \<lparr>room_manager =
        \<lparr>rooms = [(ascii ''r1'', duo_room_example)],
         player_room_map = [(ascii ''a'', ascii ''r1''), (ascii ''b'', ascii ''r1'')],
         max_rooms = 10\<rparr>,
      timeout_tasks = [(ascii ''r1'', RoundTimer (ascii ''r1'') 30)],
      outbox = []\<rparr>"

definition creating_room_example :: Room where
  "creating_room_example = start_character_creation 0 room_example"

definition creating_plugin_example :: plugin where
  "creating_plugin_example =
     \<lparr>room_manager = put_room registry_example (ascii ''r1'') creating_room_example,
      timeout_tasks = [(char_task_id (ascii ''r1''), CharTimer (ascii ''r1'') 180)],
      outbox = []\<rparr>"




text \<open>
  The race of claim C1 on the two-player room: Bob, the last player, acts at time 29;
  the round timer of 30 seconds fires while the resolution started by Bob's command
  awaits the backend; the backend answers the timer's call first.
\<close>

definition race_actions :: "(pystr, pystr) dict" where
  "race_actions = [(ascii ''Ann'', ascii ''go north''), (ascii ''Bob'', ascii ''open door'')]"

definition race_after_act :: plugin where
  "race_after_act =
     fst (cmd_act_accept duo_plugin_example (ascii ''b'') (ascii ''open door'') 29)"

definition race_after_fire :: plugin where
  "race_after_fire = fst (round_timer_expire race_after_act (ascii ''r1''))"

definition race_timer_resolved :: plugin where
  "race_timer_resolved =
     process_round_resume race_after_fire (ascii ''r1'') race_actions
       (LlmReturned (Some (ascii ''the door creaks''))) 31"

definition race_final :: plugin where
  "race_final =
     process_round_resume race_timer_resolved (ascii ''r1'') race_actions
       (LlmReturned (Some (ascii ''the door opens''))) 32"

section \<open>The creation wizard truncates an over-long world setting\<close>

lemma choice_truncate: "strip (lower (ascii ''truncate'')) = ascii ''truncate''"
  by (simp add: strip_def lower_def ascii_def py_isspace_def)

lemma world_setting_5000:
  "fst (handle_world_setting config_example wizard_example (replicate 5000 97)) =
     wizard_example\<lparr>cr_original_world_setting := Some (replicate 5000 97),
                      step := WORLD_TOO_LONG\<rparr>"
  by (simp add: handle_world_setting_def config_example_def kw_default_def ascii_def)

text \<open>
  Claim C9. In the step WORLD_TOO_LONG, with the original text stashed, the input
  "truncate" stores as world setting the first \<open>world_setting_max_length\<close> characters of
  the original text and moves the wizard to CONFIRM; when the original text is at least
  that long, the stored world setting has exactly \<open>world_setting_max_length\<close> characters.
  The length limit is a length: it is not negative.
\<close>

theorem truncate_keeps_prefix:
  assumes "step pending = WORLD_TOO_LONG"
    and "cr_original_world_setting pending = Some original"
    and "0 \<le> world_setting_max_length cfg"
  shows "fst (handle_world_too_long_choice cfg pending (ascii ''truncate'') llm) =
           pending\<lparr>cr_world_setting :=
                      Some (take (nat (world_setting_max_length cfg)) original),
                   step := CONFIRM\<rparr>
         \<and> (world_setting_max_length cfg \<le> int (length original) \<longrightarrow>
              int (length (the (cr_world_setting
                 (fst (handle_world_too_long_choice cfg pending (ascii ''truncate'') llm)))))
               = world_setting_max_length cfg)"
proof -
  have not_summarize:
    "ascii ''truncate'' \<notin> set [kw_summarize, ascii ''1'', ascii ''ai'', ascii ''summary'']"
    by (simp add: ascii_def kw_summarize_def)
  have is_truncate:
    "ascii ''truncate'' \<in> set [kw_truncate, ascii ''2'', ascii ''cut'', ascii ''truncate'']"
    by simp
  have eq: "fst (handle_world_too_long_choice cfg pending (ascii ''truncate'') llm) =
           pending\<lparr>cr_world_setting :=
                      Some (take (nat (world_setting_max_length cfg)) original),
                   step := CONFIRM\<rparr>"
    unfolding handle_world_too_long_choice_def Let_def choice_truncate
    using not_summarize is_truncate assms by (simp add: slice_to_def)
  show ?thesis unfolding eq using assms(3) by (auto simp: min_def)
qed

text \<open>
  The scenario of the specification: a world text of 5000 characters against a limit of
  4000 puts the wizard in WORLD_TOO_LONG, and "truncate" then stores exactly 4000
  characters.
\<close>

theorem truncate_keeps_prefix_witness:
  "step (fst (handle_world_setting config_example wizard_example (replicate 5000 97)))
     = WORLD_TOO_LONG
   \<and> cr_original_world_setting
        (fst (handle_world_setting config_example wizard_example (replicate 5000 97)))
      = Some (replicate 5000 97)
   \<and> length (the (cr_world_setting (fst (handle_world_too_long_choice config_example
        (fst (handle_world_setting config_example wizard_example (replicate 5000 97)))
        (ascii ''truncate'') NoProvider)))) = 4000"
proof -
  have m: "world_setting_max_length config_example = 4000"
    by (simp add: config_example_def)
  show ?thesis
    using truncate_keeps_prefix
      [of "fst (handle_world_setting config_example wizard_example (replicate 5000 97))"
          "replicate 5000 97" config_example NoProvider]
    by (simp add: world_setting_5000 m)
qed

section \<open>Facts about the registry's primitives\<close>

lemma get_room_put_room:
  "get_room (put_room m rid r) rid' = (if rid' = rid then Some r else get_room m rid')"
  by (simp add: get_room_def put_room_def update_conv')

lemma put_room_put_room: "put_room (put_room m rid a) rid b = put_room m rid b"
  by (simp add: put_room_def)

lemma put_room_fields:
  "player_room_map (put_room m rid r) = player_room_map m"
  "max_rooms (put_room m rid r) = max_rooms m"
  by (simp_all add: put_room_def)

lemma registry_example_eq:
  "registry_example =
     \<lparr>rooms = [(ascii ''r1'', room_example)],
      player_room_map = [(ascii ''h'', ascii ''r1''), (ascii ''a'', ascii ''r1''),
                         (ascii ''b'', ascii ''r1''), (ascii ''c'', ascii ''r1'')],
      max_rooms = 10\<rparr>"
  by (simp add: registry_example_def example_ops_def RoomManager_init_def create_room_def
      can_create_room_def keys_def join_room_def get_room_def put_room_def
      get_active_player_count_def room_example_def player_example_def Let_def ascii_def)

lemma registry_example_room: "get_room registry_example (ascii ''r1'') = Some room_example"
  by (simp add: registry_example_eq get_room_def)

section \<open>Pause and resume\<close>

text \<open>
  Claim C10. For a room of the registry that is not paused already, \<open>pause_room\<close> called
  by the host succeeds whatever the phase of the room is, and the paused room keeps no
  trace of that phase: the result is the same for every value of \<open>room_status\<close>.
  \<open>resume_room\<close> after it succeeds and sets the phase to ACTIVE; the room's
  character-creation start time and round number are those it had before the pause, so
  a room paused in WAITING is ACTIVE after the resume with no character creation.
\<close>

theorem pause_any_phase_resume_active:
  assumes "get_room m rid = Some room" and "is_host room pid" and "\<not> paused room"
  shows "pause_room m rid pid =
           (put_room m rid (room\<lparr>paused := True, room_status := PAUSED\<rparr>), True, msg_paused)
       \<and> pause_room (put_room m rid (room\<lparr>room_status := s\<rparr>)) rid pid = pause_room m rid pid
       \<and> resume_room (fst (pause_room m rid pid)) rid pid =
           (put_room m rid ((activate_pending_players (apply_pending_config room))
                               \<lparr>paused := False, room_status := ACTIVE\<rparr>), True, msg_resumed)
       \<and> room_status (the (get_room
            (fst (resume_room (fst (pause_room m rid pid)) rid pid)) rid)) = ACTIVE
       \<and> char_creation_start_time (the (get_room
            (fst (resume_room (fst (pause_room m rid pid)) rid pid)) rid))
           = char_creation_start_time room
       \<and> current_round (the (get_room
            (fst (resume_room (fst (pause_room m rid pid)) rid pid)) rid))
           = current_round room"
proof -
  have p: "pause_room m rid pid =
           (put_room m rid (room\<lparr>paused := True, room_status := PAUSED\<rparr>), True, msg_paused)"
    using assms by (simp add: pause_room_def)
  have q: "pause_room (put_room m rid (room\<lparr>room_status := s\<rparr>)) rid pid = pause_room m rid pid"
    using assms by (simp add: pause_room_def get_room_put_room put_room_put_room is_host_def)
  have r: "resume_room (fst (pause_room m rid pid)) rid pid =
           (put_room m rid ((activate_pending_players (apply_pending_config room))
                               \<lparr>paused := False, room_status := ACTIVE\<rparr>), True, msg_resumed)"
    using assms unfolding p
    by (simp add: resume_room_def get_room_put_room put_room_put_room is_host_def
        activate_pending_players_def apply_pending_config_def split: option.splits)
  show ?thesis unfolding r q unfolding p
    by (simp add: get_room_put_room activate_pending_players_def apply_pending_config_def
        split: option.splits)
qed

text \<open>A room with four players, still WAITING, is paused and resumed by its host.\<close>

theorem pause_any_phase_resume_active_witness:
  "get_room registry_example (ascii ''r1'') = Some room_example
   \<and> is_host room_example (ascii ''h'') \<and> \<not> paused room_example
   \<and> room_status room_example = WAITING
   \<and> fst (snd (pause_room registry_example (ascii ''r1'') (ascii ''h'')))
   \<and> room_status (the (get_room (fst (resume_room
        (fst (pause_room registry_example (ascii ''r1'') (ascii ''h'')))
        (ascii ''r1'') (ascii ''h''))) (ascii ''r1''))) = ACTIVE
   \<and> char_creation_start_time (the (get_room (fst (resume_room
        (fst (pause_room registry_example (ascii ''r1'') (ascii ''h'')))
        (ascii ''r1'') (ascii ''h''))) (ascii ''r1''))) = None"
proof -
  have h: "is_host room_example (ascii ''h'')" "\<not> paused room_example"
    "room_status room_example = WAITING" "char_creation_start_time room_example = None"
    by (simp_all add: is_host_def room_example_def)
  note t = pause_any_phase_resume_active
             [OF registry_example_room h(1) h(2), where s = WAITING]
  from t have ok: "fst (snd (pause_room registry_example (ascii ''r1'') (ascii ''h'')))"
    by simp
  from t have active: "room_status (the (get_room (fst (resume_room
        (fst (pause_room registry_example (ascii ''r1'') (ascii ''h'')))
        (ascii ''r1'') (ascii ''h''))) (ascii ''r1''))) = ACTIVE"
    by blast
  from t have "char_creation_start_time (the (get_room (fst (resume_room
        (fst (pause_room registry_example (ascii ''r1'') (ascii ''h'')))
        (ascii ''r1'') (ascii ''h''))) (ascii ''r1''))) = char_creation_start_time room_example"
    by blast
  then have no_creation: "char_creation_start_time (the (get_room (fst (resume_room
        (fst (pause_room registry_example (ascii ''r1'') (ascii ''h'')))
        (ascii ''r1'') (ascii ''h''))) (ascii ''r1''))) = None"
    by (simp only: h(4))
  from registry_example_room h(1) h(2) h(3) ok active no_creation show ?thesis
    by (intro conjI)
qed

lemma paused_registry_example_eq:
  "paused_registry_example = put_room registry_example (ascii ''r1'') paused_room_example"
  by (simp add: paused_registry_example_def pause_room_def registry_example_room
      is_host_def room_example_def paused_room_example_def)

lemma paused_registry_example_room:
  "get_room paused_registry_example (ascii ''r1'') = Some paused_room_example"
  by (simp add: paused_registry_example_eq get_room_put_room)

lemma active_registry_example_eq:
  "active_registry_example = put_room registry_example (ascii ''r1'') active_room_example"
  by (simp add: active_registry_example_def pause_room_def resume_room_def
      registry_example_room get_room_put_room put_room_put_room is_host_def
      room_example_def active_room_example_def activate_pending_players_def
      apply_pending_config_def)

lemma active_registry_example_room:
  "get_room active_registry_example (ascii ''r1'') = Some active_room_example"
  by (simp add: active_registry_example_eq get_room_put_room)

section \<open>Joining a room\<close>

text \<open>
  Claim C4. \<open>join_room\<close> is rejected, and the registry is left as it was, when the room
  does not exist, when it is CLOSED, in CHARACTER_CREATION or ACTIVE, when the player is
  in the reverse index already, or when the active and pending players together have
  reached \<open>max_players\<close>; a room in CHARACTER_CREATION or ACTIVE is rejected with the
  message "the game has started". When the room is paused and none of the rejections
  applies, the player is stored in the pending dict with status PENDING, the active dict
  is untouched, and the reverse index maps the player to the room.
\<close>

theorem join_room_rejects_or_stages:
  "((get_room m rid = None
      \<or> (\<exists>room. get_room m rid = Some room
            \<and> (room_status room \<in> {CLOSED, CHARACTER_CREATION, ACTIVE}
                \<or> max_players \<le> int (length (active_players room))
                                   + int (length (pending_players room))))
      \<or> pid \<in> keys (player_room_map m))
     \<longrightarrow> fst (join_room m rid pid pname pumo max_players now) = m
         \<and> \<not> fst (snd (join_room m rid pid pname pumo max_players now)))
   \<and> (\<forall>room. get_room m rid = Some room
          \<and> room_status room \<in> {CHARACTER_CREATION, ACTIVE}
        \<longrightarrow> join_room m rid pid pname pumo max_players now = (m, False, msg_game_started))
   \<and> (\<forall>room. get_room m rid = Some room \<and> room_status room = PAUSED \<and> paused room
          \<and> pid \<notin> keys (player_room_map m)
          \<and> int (length (active_players room)) + int (length (pending_players room))
               < max_players
        \<longrightarrow> join_room m rid pid pname pumo max_players now =
              ((put_room m rid
                  (room\<lparr>pending_players :=
                          AList.update pid ((new_Player pid pname pumo now)\<lparr>status := PENDING\<rparr>)
                            (pending_players room)\<rparr>))
                 \<lparr>player_room_map := AList.update pid rid (player_room_map m)\<rparr>,
               True, msg_joined))"
  by (auto simp: join_room_def get_active_player_count_def Let_def split: option.splits)

text \<open>
  The room of the scenario is paused by its host; a fifth player then joins and is
  staged. The same player is rejected by the room once it is ACTIVE.
\<close>

theorem join_room_rejects_or_stages_witness:
  "get_room paused_registry_example (ascii ''r1'') = Some paused_room_example
   \<and> room_status paused_room_example = PAUSED \<and> paused paused_room_example
   \<and> ascii ''d'' \<notin> keys (player_room_map paused_registry_example)
   \<and> int (length (active_players paused_room_example))
        + int (length (pending_players paused_room_example)) < 8
   \<and> map_of (pending_players (the (get_room
        (fst (join_room paused_registry_example (ascii ''r1'') (ascii ''d'') (ascii ''Dan'')
                (ascii ''g3'') 8 0)) (ascii ''r1'')))) (ascii ''d'')
      = Some ((new_Player (ascii ''d'') (ascii ''Dan'') (ascii ''g3'') 0)\<lparr>status := PENDING\<rparr>)
   \<and> get_room active_registry_example (ascii ''r1'') = Some active_room_example
   \<and> room_status active_room_example = ACTIVE
   \<and> join_room active_registry_example (ascii ''r1'') (ascii ''d'') (ascii ''Dan'')
        (ascii ''g3'') 8 0 = (active_registry_example, False, msg_game_started)"
proof -
  have pr: "room_status paused_room_example = PAUSED" "paused paused_room_example"
    "int (length (active_players paused_room_example))
        + int (length (pending_players paused_room_example)) < 8"
    by (simp_all add: paused_room_example_def room_example_def)
  have fresh: "ascii ''d'' \<notin> keys (player_room_map paused_registry_example)"
    by (simp add: paused_registry_example_eq registry_example_eq put_room_def keys_def ascii_def)
  have ar: "room_status active_room_example = ACTIVE"
    by (simp add: active_room_example_def)
  note t = join_room_rejects_or_stages
             [of paused_registry_example "ascii ''r1''" 8 "ascii ''d''" "ascii ''Dan''" "ascii ''g3''" 0]
  from t paused_registry_example_room pr fresh
  have staged: "join_room paused_registry_example (ascii ''r1'') (ascii ''d'') (ascii ''Dan'')
        (ascii ''g3'') 8 0 =
      ((put_room paused_registry_example (ascii ''r1'')
          (paused_room_example\<lparr>pending_players :=
              AList.update (ascii ''d'')
                ((new_Player (ascii ''d'') (ascii ''Dan'') (ascii ''g3'') 0)\<lparr>status := PENDING\<rparr>)
                (pending_players paused_room_example)\<rparr>))
         \<lparr>player_room_map := AList.update (ascii ''d'') (ascii ''r1'')
              (player_room_map paused_registry_example)\<rparr>,
       True, msg_joined)"
    by blast
  have pending: "map_of (pending_players (the (get_room
        (fst (join_room paused_registry_example (ascii ''r1'') (ascii ''d'') (ascii ''Dan'')
                (ascii ''g3'') 8 0)) (ascii ''r1'')))) (ascii ''d'')
      = Some ((new_Player (ascii ''d'') (ascii ''Dan'') (ascii ''g3'') 0)\<lparr>status := PENDING\<rparr>)"
    unfolding staged by (simp add: get_room_def put_room_def update_conv')
  note u = join_room_rejects_or_stages
             [of active_registry_example "ascii ''r1''" 8 "ascii ''d''" "ascii ''Dan''" "ascii ''g3''" 0]
  from u active_registry_example_room ar
  have rejected: "join_room active_registry_example (ascii ''r1'') (ascii ''d'') (ascii ''Dan'')
        (ascii ''g3'') 8 0 = (active_registry_example, False, msg_game_started)"
    by blast
  from paused_registry_example_room pr fresh pending active_registry_example_room ar rejected
  show ?thesis by (intro conjI)
qed

section \<open>Resuming a paused room\<close>







section \<open>Round resolution and the generation backend\<close>

lemma get_room_store_room:
  "get_room (room_manager (store_room p rid r)) rid' =
     (if rid' = rid then Some r else get_room (room_manager p) rid')"
  by (simp add: store_room_def get_room_put_room)

lemma store_room_store_room: "store_room (store_room p rid a) rid b = store_room p rid b"
  by (simp add: store_room_def put_room_put_room)

lemma store_room_fields:
  "timeout_tasks (store_room p rid r) = timeout_tasks p"
  "outbox (store_room p rid r) = outbox p"
  by (simp_all add: store_room_def)

lemma broadcast_fields:
  "room_manager (broadcast p r n) = room_manager p"
  "timeout_tasks (broadcast p r n) = timeout_tasks p"
  "outbox (broadcast p r n) = outbox p @ [(get_unique_origins r, n)]"
  by (simp_all add: broadcast_def)

lemma start_timeout_fields:
  "room_manager (start_timeout p r) = room_manager p"
  "outbox (start_timeout p r) = outbox p"
  "map_of (timeout_tasks (start_timeout p r)) k
     = (if k = room_id r then Some (RoundTimer (room_id r) (timeout r))
        else map_of (timeout_tasks p) k)"
  by (simp_all add: start_timeout_def stop_timeout_def Let_def update_conv' delete_conv')

lemma process_round_with_actions:
  assumes "get_room (room_manager p) rid = Some room" and "get_round_actions room \<noteq> []"
  shows "process_round p rid llm now =
           process_round_resume p rid (get_round_actions room) llm now"
  using assms by (simp add: process_round_def process_round_begin_def Let_def)

lemma process_round_resume_returned:
  assumes "get_room (room_manager p) rid = Some room"
  shows "get_room (room_manager (process_round_resume p rid actions (LlmReturned resp) now)) rid
           = Some (start_new_round now
               (room\<lparr>history := history room @
                        [\<lparr>round_number = current_round room, player_actions = actions,
                          dm_response = (if truthy resp then strip (the resp) else no_response),
                          timestamp = now\<rparr>],
                     pending_config := (pending_config room)\<lparr>correction_text := None\<rparr>\<rparr>))"
    and "map_of (timeout_tasks (process_round_resume p rid actions (LlmReturned resp) now))
           (room_id room) = Some (RoundTimer (room_id room) (timeout room))"
  using assms
  by (simp_all add: process_round_resume_def Let_def start_timeout_fields
      get_room_store_room broadcast_fields start_new_round_def)

lemma duo_plugin_example_room:
  "get_room (room_manager duo_plugin_example) (ascii ''r1'') = Some duo_room_example"
  by (simp add: duo_plugin_example_def get_room_def)

lemma duo_room_example_actions:
  "get_round_actions duo_room_example = [(ascii ''Ann'', ascii ''go north'')]"
  by (simp add: get_round_actions_def duo_room_example_def dict_values_def truthy_def
      display_name_def player_example_def new_Player_def ascii_def)

lemma duo_room_example_facts:
  "room_status duo_room_example = ACTIVE" "\<not> paused duo_room_example"
  "history duo_room_example = []" "current_round duo_room_example = 1"
  "room_id duo_room_example = ascii ''r1''" "timeout duo_room_example = 30"
  by (simp_all add: duo_room_example_def)

text \<open>
  Claim C2, as stated, fails. A room in ACTIVE phase with one recorded action is
  resolved while no provider is configured, and while the backend call raises: in both
  cases no GameHistory is appended and the round number stays 1.
\<close>

theorem backend_failure_aborts_round:
  "room_status duo_room_example = ACTIVE
   \<and> get_round_actions duo_room_example \<noteq> []
   \<and> history (the (get_room (room_manager
        (process_round duo_plugin_example (ascii ''r1'') NoProvider 5)) (ascii ''r1''))) = []
   \<and> current_round (the (get_room (room_manager
        (process_round duo_plugin_example (ascii ''r1'') NoProvider 5)) (ascii ''r1''))) = 1
   \<and> history (the (get_room (room_manager
        (process_round duo_plugin_example (ascii ''r1'') (LlmRaised (ascii ''timeout'')) 5))
        (ascii ''r1''))) = []
   \<and> current_round (the (get_room (room_manager
        (process_round duo_plugin_example (ascii ''r1'') (LlmRaised (ascii ''timeout'')) 5))
        (ascii ''r1''))) = 1"
proof -
  have a: "get_round_actions duo_room_example \<noteq> []"
    by (simp add: duo_room_example_actions)
  show ?thesis
    by (simp add: process_round_with_actions [OF duo_plugin_example_room a]
        process_round_resume_def duo_plugin_example_room broadcast_fields
        duo_room_example_facts a)
qed

text \<open>
  Claim C2, amended. For a room of the registry with a recorded action: when the
  backend returns, the round is completed whatever it returned: a GameHistory with the
  round number, the actions and the response is appended, the response being the
  placeholder when the backend returned nothing or an empty text; the round number is
  incremented and a round timer is registered under the room's identifier. When no
  provider is configured or the backend call raises, the round is not completed: the
  registry and the timers are left as they were and one notice is broadcast.
\<close>

theorem process_round_backend_outcomes:
  assumes "get_room (room_manager p) rid = Some room" and "get_round_actions room \<noteq> []"
  shows "history (the (get_room (room_manager (process_round p rid (LlmReturned resp) now)) rid))
           = history room @
               [\<lparr>round_number = current_round room, player_actions = get_round_actions room,
                 dm_response = (if truthy resp then strip (the resp) else no_response),
                 timestamp = now\<rparr>]
       \<and> (\<not> truthy resp \<longrightarrow>
            dm_response (last (history (the (get_room
              (room_manager (process_round p rid (LlmReturned resp) now)) rid)))) = no_response)
       \<and> current_round (the (get_room
            (room_manager (process_round p rid (LlmReturned resp) now)) rid))
           = current_round room + 1
       \<and> map_of (timeout_tasks (process_round p rid (LlmReturned resp) now)) (room_id room)
           = Some (RoundTimer (room_id room) (timeout room))
       \<and> process_round p rid NoProvider now = broadcast p room NoAIService
       \<and> process_round p rid (LlmRaised e) now = broadcast p room RoundError
       \<and> (\<forall>llm. llm = NoProvider \<or> llm = LlmRaised e \<longrightarrow>
            room_manager (process_round p rid llm now) = room_manager p
            \<and> timeout_tasks (process_round p rid llm now) = timeout_tasks p)"
proof -
  note pr = process_round_with_actions [OF assms]
  note ret = process_round_resume_returned [OF assms(1)]
  have fail: "process_round p rid NoProvider now = broadcast p room NoAIService"
    "process_round p rid (LlmRaised e) now = broadcast p room RoundError"
    using assms(1) by (simp_all add: pr process_round_resume_def)
  have completed: "get_room (room_manager (process_round p rid (LlmReturned resp) now)) rid
      = Some (start_new_round now
          (room\<lparr>history := history room @
                   [\<lparr>round_number = current_round room,
                     player_actions = get_round_actions room,
                     dm_response = (if truthy resp then strip (the resp) else no_response),
                     timestamp = now\<rparr>],
                pending_config := (pending_config room)\<lparr>correction_text := None\<rparr>\<rparr>))"
    by (simp only: pr ret)
  have timer: "map_of (timeout_tasks (process_round p rid (LlmReturned resp) now)) (room_id room)
      = Some (RoundTimer (room_id room) (timeout room))"
    by (simp only: pr ret)
  have unchanged: "\<forall>llm. llm = NoProvider \<or> llm = LlmRaised e \<longrightarrow>
      room_manager (process_round p rid llm now) = room_manager p
      \<and> timeout_tasks (process_round p rid llm now) = timeout_tasks p"
    by (auto simp: fail broadcast_fields)
  show ?thesis
    using timer unchanged fail by (simp add: completed start_new_round_def)
qed

theorem process_round_backend_outcomes_witness:
  "get_room (room_manager duo_plugin_example) (ascii ''r1'') = Some duo_room_example
   \<and> get_round_actions duo_room_example \<noteq> []
   \<and> history (the (get_room (room_manager
        (process_round duo_plugin_example (ascii ''r1'') (LlmReturned None) 5)) (ascii ''r1'')))
      = [\<lparr>round_number = 1, player_actions = [(ascii ''Ann'', ascii ''go north'')],
          dm_response = no_response, timestamp = 5\<rparr>]
   \<and> current_round (the (get_room (room_manager
        (process_round duo_plugin_example (ascii ''r1'') (LlmReturned None) 5)) (ascii ''r1'')))
      = 2
   \<and> room_manager (process_round duo_plugin_example (ascii ''r1'') NoProvider 5)
      = room_manager duo_plugin_example"
proof -
  have a: "get_round_actions duo_room_example \<noteq> []"
    by (simp add: duo_room_example_actions)
  note t = process_round_backend_outcomes
             [OF duo_plugin_example_room a, of None 5 "ascii ''x''"]
  from t have "history (the (get_room (room_manager
        (process_round duo_plugin_example (ascii ''r1'') (LlmReturned None) 5)) (ascii ''r1'')))
      = history duo_room_example @
          [\<lparr>round_number = current_round duo_room_example,
            player_actions = get_round_actions duo_room_example,
            dm_response = (if truthy None then strip (the None) else no_response),
            timestamp = 5\<rparr>]"
    by blast
  then have h: "history (the (get_room (room_manager
        (process_round duo_plugin_example (ascii ''r1'') (LlmReturned None) 5)) (ascii ''r1'')))
      = [\<lparr>round_number = 1, player_actions = [(ascii ''Ann'', ascii ''go north'')],
          dm_response = no_response, timestamp = 5\<rparr>]"
    by (simp add: duo_room_example_facts duo_room_example_actions truthy_def)
  from t have "current_round (the (get_room (room_manager
        (process_round duo_plugin_example (ascii ''r1'') (LlmReturned None) 5)) (ascii ''r1'')))
      = current_round duo_room_example + 1"
    by blast
  then have c: "current_round (the (get_room (room_manager
        (process_round duo_plugin_example (ascii ''r1'') (LlmReturned None) 5)) (ascii ''r1'')))
      = 2"
    by (simp add: duo_room_example_facts)
  from t have m: "room_manager (process_round duo_plugin_example (ascii ''r1'') NoProvider 5)
      = room_manager duo_plugin_example"
    by blast
  from duo_plugin_example_room a h c m show ?thesis by (intro conjI)
qed

section \<open>The character-creation timer\<close>

lemma dict_values_map_values: "dict_values (map_values f d) = map f (dict_values d)"
  by (simp add: dict_values_def map_values_def case_prod_unfold comp_def)

lemma keys_map_values: "map fst (map_values f d) = map fst d"
  by (simp add: map_values_def case_prod_unfold comp_def)

lemma start_game_after_characters_result:
  assumes "get_room (room_manager p) rid = Some room"
  shows "get_room (room_manager (start_game_after_characters p rid llm now)) rid
           = Some (start_new_round now (room\<lparr>room_status := ACTIVE\<rparr>))"
    and "map_of (timeout_tasks (start_game_after_characters p rid llm now)) (room_id room)
           = Some (RoundTimer (room_id room) (timeout room))"
  using assms
  by (simp_all add: start_game_after_characters_def Let_def start_timeout_fields
      get_room_store_room broadcast_fields start_new_round_def)

lemma creating_plugin_example_room:
  "get_room (room_manager creating_plugin_example) (ascii ''r1'')
     = Some creating_room_example"
  by (simp add: creating_plugin_example_def get_room_put_room)

text \<open>
  Claim C7. When the character-creation timer fires for a room of the registry in
  CHARACTER_CREATION phase, the room on which the game is started is the room in which
  every player with status CREATING_CHAR has its own name as character name, the
  default character setting and status CHAR_DONE, the other players being untouched.
  The start of the game follows whatever the statuses were: afterwards the room is
  ACTIVE, its round number is one more (1 for a room that has played no round), every
  player starts the round, and the round timer is registered.
\<close>

theorem char_timer_assigns_defaults_and_starts:
  assumes "get_room (room_manager p) rid = Some r"
    and "room_status r = CHARACTER_CREATION"
  shows "dict_values (active_players (assign_default_characters r))
           = map (\<lambda>q. if status q = CREATING_CHAR
                       then q\<lparr>character_name := Some (player_name q),
                              character_setting := Some default_character_setting,
                              status := CHAR_DONE\<rparr>
                       else q)
               (dict_values (active_players r))
       \<and> map fst (active_players (assign_default_characters r)) = map fst (active_players r)
       \<and> char_timer_check p rid llm now =
           start_game_after_characters
             (if filter (\<lambda>q. status q = CREATING_CHAR) (dict_values (active_players r)) \<noteq> []
              then broadcast (store_room p rid (assign_default_characters r))
                     (assign_default_characters r)
                     (DefaultCharacters (map player_name
                        (filter (\<lambda>q. status q = CREATING_CHAR)
                           (dict_values (active_players r)))))
              else store_room p rid (assign_default_characters r))
             rid llm now
       \<and> get_room (room_manager (char_timer_check p rid llm now)) rid
           = Some (start_new_round now
                    ((assign_default_characters r)\<lparr>room_status := ACTIVE\<rparr>))
       \<and> room_status (the (get_room (room_manager (char_timer_check p rid llm now)) rid))
           = ACTIVE
       \<and> current_round (the (get_room (room_manager (char_timer_check p rid llm now)) rid))
           = current_round r + 1
       \<and> map_of (timeout_tasks (char_timer_check p rid llm now)) (room_id r)
           = Some (RoundTimer (room_id r) (timeout r))"
proof -
  let ?r1 = "assign_default_characters r"
  let ?late = "filter (\<lambda>q. status q = CREATING_CHAR) (dict_values (active_players r))"
  let ?p2 = "if ?late \<noteq> []
             then broadcast (store_room p rid ?r1) ?r1 (DefaultCharacters (map player_name ?late))
             else store_room p rid ?r1"
  have vals: "dict_values (active_players ?r1)
           = map (\<lambda>q. if status q = CREATING_CHAR
                       then q\<lparr>character_name := Some (player_name q),
                              character_setting := Some default_character_setting,
                              status := CHAR_DONE\<rparr>
                       else q)
               (dict_values (active_players r))"
    by (simp add: assign_default_characters_def dict_values_map_values)
  have ks: "map fst (active_players ?r1) = map fst (active_players r)"
    by (simp add: assign_default_characters_def keys_map_values)
  have chk: "char_timer_check p rid llm now = start_game_after_characters ?p2 rid llm now"
    using assms by (simp add: char_timer_check_def Let_def)
  have room2: "get_room (room_manager ?p2) rid = Some ?r1"
    by (simp add: get_room_store_room broadcast_fields)
  note sg = start_game_after_characters_result [OF room2, of llm now]
  have got: "get_room (room_manager (char_timer_check p rid llm now)) rid
           = Some (start_new_round now (?r1\<lparr>room_status := ACTIVE\<rparr>))"
    by (simp only: chk sg)
  have same: "room_id ?r1 = room_id r" "timeout ?r1 = timeout r"
    "current_round ?r1 = current_round r"
    by (simp_all add: assign_default_characters_def)
  have timer: "map_of (timeout_tasks (char_timer_check p rid llm now)) (room_id r)
           = Some (RoundTimer (room_id r) (timeout r))"
    using sg(2) by (simp only: chk same)
  have st: "room_status (the (get_room (room_manager (char_timer_check p rid llm now)) rid))
           = ACTIVE"
    by (simp add: got start_new_round_def)
  have rn: "current_round (the (get_room (room_manager (char_timer_check p rid llm now)) rid))
           = current_round r + 1"
    by (simp add: got start_new_round_def same)
  from vals ks chk got st rn timer show ?thesis by (intro conjI)
qed

text \<open>
  The timer fires on a room of four players none of whom has created a character: the
  game starts, in round 1, and the player Ann plays the default character.
\<close>

theorem char_timer_assigns_defaults_and_starts_witness:
  "get_room (room_manager creating_plugin_example) (ascii ''r1'') = Some creating_room_example
   \<and> room_status creating_room_example = CHARACTER_CREATION
   \<and> list_all (\<lambda>q. status q = CREATING_CHAR) (dict_values (active_players creating_room_example))
   \<and> room_status (the (get_room (room_manager
        (char_timer_check creating_plugin_example (ascii ''r1'') NoProvider 200))
        (ascii ''r1''))) = ACTIVE
   \<and> current_round (the (get_room (room_manager
        (char_timer_check creating_plugin_example (ascii ''r1'') NoProvider 200))
        (ascii ''r1''))) = 1
   \<and> map_of (active_players (the (get_room (room_manager
        (char_timer_check creating_plugin_example (ascii ''r1'') NoProvider 200))
        (ascii ''r1'')))) (ascii ''a'')
      = Some ((player_example ''a'' ''Ann'' ''g1'')
                \<lparr>character_name := Some (ascii ''Ann''),
                 character_setting := Some default_character_setting\<rparr>)"
proof -
  have f: "room_status creating_room_example = CHARACTER_CREATION"
    "current_round creating_room_example = 0"
    "list_all (\<lambda>q. status q = CREATING_CHAR) (dict_values (active_players creating_room_example))"
    by (simp_all add: creating_room_example_def start_character_creation_def room_example_def
        dict_values_def map_values_def)
  note t = char_timer_assigns_defaults_and_starts
             [OF creating_plugin_example_room f(1), of NoProvider 200]
  from t have s: "room_status (the (get_room (room_manager
        (char_timer_check creating_plugin_example (ascii ''r1'') NoProvider 200))
        (ascii ''r1''))) = ACTIVE"
    by blast
  from t have "current_round (the (get_room (room_manager
        (char_timer_check creating_plugin_example (ascii ''r1'') NoProvider 200))
        (ascii ''r1''))) = current_round creating_room_example + 1"
    by blast
  then have c: "current_round (the (get_room (room_manager
        (char_timer_check creating_plugin_example (ascii ''r1'') NoProvider 200))
        (ascii ''r1''))) = 1"
    by (simp add: f(2))
  from t have "get_room (room_manager
        (char_timer_check creating_plugin_example (ascii ''r1'') NoProvider 200)) (ascii ''r1'')
      = Some (start_new_round 200
               ((assign_default_characters creating_room_example)\<lparr>room_status := ACTIVE\<rparr>))"
    by blast
  then have a: "map_of (active_players (the (get_room (room_manager
        (char_timer_check creating_plugin_example (ascii ''r1'') NoProvider 200))
        (ascii ''r1'')))) (ascii ''a'')
      = Some ((player_example ''a'' ''Ann'' ''g1'')
                \<lparr>character_name := Some (ascii ''Ann''),
                 character_setting := Some default_character_setting\<rparr>)"
    by (simp add: start_new_round_def assign_default_characters_def creating_room_example_def
        start_character_creation_def room_example_def map_values_def player_example_def
        new_Player_def reset_for_new_round_def ascii_def)
  from creating_plugin_example_room f(1) f(3) s c a show ?thesis by (intro conjI)
qed

section \<open>The round timer\<close>

lemma set_update_subset: "set (AList.update k v al) \<subseteq> insert (k, v) (set al)"
  by (induction al) auto







section \<open>The consistency of the registry\<close>

lemma keys_update: "keys (AList.update k v d) = insert k (keys d)"
  by (simp add: keys_def dom_update)

lemma keys_delete: "keys (AList.delete k d) = keys d - {k}"
  by (force simp: keys_def AList.delete_eq)

lemma map_of_None_keys: "map_of d k = None \<longleftrightarrow> k \<notin> keys d"
  by (simp add: keys_def map_of_eq_None_iff)

lemma map_of_Some_keys: "map_of d k = Some v \<Longrightarrow> k \<in> keys d"
  by (auto simp: keys_def dest: map_of_SomeD intro: rev_image_eqI)

lemma players_keyed_update:
  "players_keyed d \<Longrightarrow> player_id q = k \<Longrightarrow> players_keyed (AList.update k q d)"
  using set_update_subset [of k q d] by (auto simp: players_keyed_def)

lemma players_keyed_delete: "players_keyed d \<Longrightarrow> players_keyed (AList.delete k d)"
  by (auto simp: players_keyed_def AList.delete_eq)

lemma players_keyed_ids: "players_keyed d \<Longrightarrow> player_id ` set (dict_values d) = keys d"
  by (force simp: players_keyed_def dict_values_def keys_def)

lemma map_of_fold_delete:
  "map_of (fold (\<lambda>p d. AList.delete (f p) d) ps d) k =
     (if k \<in> f ` set ps then None else map_of d k)"
  by (induction ps arbitrary: d) (auto simp: delete_conv')

lemma keys_Cons: "keys ((k, v) # d) = insert k (keys d)"
  by (simp add: keys_def)

lemma keys_fold_update:
  "keys (fold (\<lambda>(pid, p) act. AList.update pid (g p) act) pend act) = keys act \<union> keys pend"
proof (induction pend arbitrary: act)
  case Nil
  then show ?case by (simp add: keys_def)
next
  case (Cons x pend)
  then show ?case by (cases x) (auto simp: keys_update keys_Cons)
qed

lemma players_keyed_fold_update:
  "players_keyed act \<Longrightarrow> players_keyed pend \<Longrightarrow>
   players_keyed (fold (\<lambda>(pid, p) act. AList.update pid (p\<lparr>status := s\<rparr>) act) pend act)"
proof (induction pend arbitrary: act)
  case Nil
  then show ?case by simp
next
  case (Cons x pend)
  obtain k q where x: "x = (k, q)" by (cases x)
  from Cons.prems(2) x have kq: "player_id q = k" and rest: "players_keyed pend"
    by (auto simp: players_keyed_def)
  have "players_keyed (AList.update k (q\<lparr>status := s\<rparr>) act)"
    using Cons.prems(1) kq by (intro players_keyed_update) simp_all
  from Cons.IH [OF this rest] show ?case by (simp add: x)
qed

lemma registry_inv_init: "registry_inv (RoomManager_init n)"
  by (simp add: registry_inv_def RoomManager_init_def get_room_def)

lemma registry_inv_put_room:
  assumes inv: "registry_inv m" and old: "get_room m rid = Some room"
    and id: "room_id room' = room_id room"
    and act: "players_keyed (active_players room')"
    and pend: "players_keyed (pending_players room')"
    and disj: "keys (active_players room') \<inter> keys (pending_players room') = {}"
    and mem: "members room' = members room"
  shows "registry_inv (put_room m rid room')"
proof -
  have rooms_ok: "room_id r = rid' \<and> players_keyed (active_players r)
      \<and> players_keyed (pending_players r)
      \<and> keys (active_players r) \<inter> keys (pending_players r) = {}"
    if "get_room (put_room m rid room') rid' = Some r" for rid' r
  proof -
    from that have "r = room' \<and> rid' = rid \<or> get_room m rid' = Some r"
      by (auto simp: get_room_put_room split: if_splits)
    then show ?thesis
      using inv old id act pend disj by (auto simp: registry_inv_def)
  qed
  have index_ok: "map_of (player_room_map (put_room m rid room')) k = Some rid' \<longleftrightarrow>
        (\<exists>r. get_room (put_room m rid room') rid' = Some r \<and> k \<in> members r)" for k rid'
  proof -
    have "(\<exists>r. get_room (put_room m rid room') rid' = Some r \<and> k \<in> members r)
        \<longleftrightarrow> (\<exists>r. get_room m rid' = Some r \<and> k \<in> members r)"
      using old mem by (auto simp: get_room_put_room)
    then show ?thesis
      using inv by (simp add: registry_inv_def put_room_fields)
  qed
  show ?thesis
    unfolding registry_inv_def using rooms_ok index_ok by blast
qed
lemma registry_invI:
  assumes "\<And>rid r. get_room m rid = Some r \<Longrightarrow>
             room_id r = rid \<and> players_keyed (active_players r)
             \<and> players_keyed (pending_players r)
             \<and> keys (active_players r) \<inter> keys (pending_players r) = {}"
    and "\<And>k rid. map_of (player_room_map m) k = Some rid \<longleftrightarrow>
             (\<exists>r. get_room m rid = Some r \<and> k \<in> members r)"
  shows "registry_inv m"
  unfolding registry_inv_def using assms by blast

lemma registry_inv_room:
  assumes "registry_inv m" and "get_room m rid = Some r"
  shows "room_id r = rid" and "players_keyed (active_players r)"
    and "players_keyed (pending_players r)"
    and "keys (active_players r) \<inter> keys (pending_players r) = {}"
  using assms by (auto simp: registry_inv_def)

lemma registry_inv_index:
  assumes "registry_inv m"
  shows "map_of (player_room_map m) k = Some rid \<longleftrightarrow>
           (\<exists>r. get_room m rid = Some r \<and> k \<in> members r)"
  using assms unfolding registry_inv_def by blast

lemma registry_inv_pause: "registry_inv m \<Longrightarrow> registry_inv (fst (pause_room m rid pid))"
proof -
  assume inv: "registry_inv m"
  show ?thesis
  proof (cases "get_room m rid")
    case None
    then show ?thesis using inv by (simp add: pause_room_def)
  next
    case (Some room)
    have "registry_inv (put_room m rid (room\<lparr>paused := True, room_status := PAUSED\<rparr>))"
      using registry_inv_room [OF inv Some]
      by (intro registry_inv_put_room [OF inv Some]) (simp_all add: members_def)
    then show ?thesis using inv Some by (simp add: pause_room_def)
  qed
qed

lemma registry_inv_resume: "registry_inv m \<Longrightarrow> registry_inv (fst (resume_room m rid pid))"
proof -
  assume inv: "registry_inv m"
  show ?thesis
  proof (cases "get_room m rid")
    case None
    then show ?thesis using inv by (simp add: resume_room_def)
  next
    case (Some room)
    let ?r = "(activate_pending_players (apply_pending_config room))
                \<lparr>paused := False, room_status := ACTIVE\<rparr>"
    have same: "active_players (apply_pending_config room) = active_players room"
      "pending_players (apply_pending_config room) = pending_players room"
      "room_id (apply_pending_config room) = room_id room"
      by (simp_all add: apply_pending_config_def split: option.splits)
    have "registry_inv (put_room m rid ?r)"
    proof (intro registry_inv_put_room [OF inv Some])
      show "room_id ?r = room_id room"
        by (simp add: activate_pending_players_def same)
      show "players_keyed (active_players ?r)"
        using registry_inv_room(2,3) [OF inv Some]
        by (simp add: activate_pending_players_def same players_keyed_fold_update)
      show "players_keyed (pending_players ?r)"
        by (simp add: activate_pending_players_def players_keyed_def)
      show "keys (active_players ?r) \<inter> keys (pending_players ?r) = {}"
        by (simp add: activate_pending_players_def keys_def)
      show "members ?r = members room"
        by (simp add: members_def activate_pending_players_def same keys_fold_update)
          (simp add: keys_def)
    qed
    then show ?thesis using inv Some by (simp add: resume_room_def)
  qed
qed

lemma registry_inv_create:
  assumes inv: "registry_inv m" and fresh: "new_id \<notin> keys (rooms m)"
  shows "registry_inv (fst (create_room m hid hname humo rname world tmo ctmo orig new_id now))"
proof (cases "\<not> can_create_room m \<or> hid \<in> keys (player_room_map m)")
  case True
  then show ?thesis using inv by (simp add: create_room_def)
next
  case False
  then have nohost: "map_of (player_room_map m) hid = None"
    by (simp add: map_of_None_keys)
  from fresh have noroom: "get_room m new_id = None"
    by (simp add: get_room_def map_of_None_keys)
  define room where "room =
               \<lparr>room_id = new_id, room_name = rname, host_id = hid, host_umo = humo,
                 world_setting = world, original_world_setting = orig,
                 room_status = WAITING, paused = False,
                 active_players = [(hid, new_Player hid hname humo now)],
                 pending_players = [],
                 timeout = tmo, char_creation_timeout = ctmo,
                 pending_config = \<lparr>pc_timeout = None, correction_text = None\<rparr>,
                 current_round = 0, round_start_time = None,
                 char_creation_start_time = None, history = [], created_at = now\<rparr>"
  define m' where "m' = m\<lparr>rooms := AList.update new_id room (rooms m),
               player_room_map := AList.update hid new_id (player_room_map m)\<rparr>"
  have res: "fst (create_room m hid hname humo rname world tmo ctmo orig new_id now) = m'"
    using False by (simp add: create_room_def Let_def m'_def room_def)
  have room: "get_room m' rid = (if rid = new_id then Some room else get_room m rid)" for rid
    by (simp add: get_room_def update_conv' m'_def)
  have index: "map_of (player_room_map m') k
                 = (if k = hid then Some new_id else map_of (player_room_map m) k)" for k
    by (simp add: update_conv' m'_def)
  have mem: "members room = {hid}"
    by (simp add: members_def keys_def room_def)
  have new_ok: "room_id room = new_id \<and> players_keyed (active_players room)
             \<and> players_keyed (pending_players room)
             \<and> keys (active_players room) \<inter> keys (pending_players room) = {}"
    by (simp add: room_def players_keyed_def new_Player_def keys_def)
  have "registry_inv m'"
  proof (rule registry_invI)
    fix rid r
    assume "get_room m' rid = Some r"
    then have "r = room \<and> rid = new_id \<or> get_room m rid = Some r"
      by (auto simp: room split: if_splits)
    then show "room_id r = rid \<and> players_keyed (active_players r)
             \<and> players_keyed (pending_players r)
             \<and> keys (active_players r) \<inter> keys (pending_players r) = {}"
      using registry_inv_room [OF inv, of rid r] new_ok by blast
  next
    fix k rid
    show "map_of (player_room_map m') k = Some rid \<longleftrightarrow>
             (\<exists>r. get_room m' rid = Some r \<and> k \<in> members r)"
      unfolding room index
      using registry_inv_index [OF inv, of k rid] registry_inv_index [OF inv, of hid rid]
        registry_inv_index [OF inv, of k new_id] nohost noroom mem
      by (cases "k = hid"; cases "rid = new_id") auto
  qed
  then show ?thesis by (simp only: res)
qed
lemma registry_inv_add_member:
  assumes inv: "registry_inv m" and old: "get_room m rid = Some room"
    and new: "map_of (player_room_map m) pid = None"
    and id: "room_id room' = room_id room"
    and act: "players_keyed (active_players room')"
    and pend: "players_keyed (pending_players room')"
    and disj: "keys (active_players room') \<inter> keys (pending_players room') = {}"
    and mem: "members room' = insert pid (members room)"
  shows "registry_inv ((put_room m rid room')
           \<lparr>player_room_map := AList.update pid rid (player_room_map m)\<rparr>)"
proof -
  define m' where "m' = (put_room m rid room')
           \<lparr>player_room_map := AList.update pid rid (player_room_map m)\<rparr>"
  have room: "get_room m' rid' = (if rid' = rid then Some room' else get_room m rid')" for rid'
    by (simp add: m'_def get_room_def put_room_def update_conv')
  have index: "map_of (player_room_map m') k
                 = (if k = pid then Some rid else map_of (player_room_map m) k)" for k
    by (simp add: m'_def update_conv')
  have "registry_inv m'"
  proof (rule registry_invI)
    fix rid' r
    assume "get_room m' rid' = Some r"
    then have "r = room' \<and> rid' = rid \<or> get_room m rid' = Some r"
      by (auto simp: room split: if_splits)
    then show "room_id r = rid' \<and> players_keyed (active_players r)
             \<and> players_keyed (pending_players r)
             \<and> keys (active_players r) \<inter> keys (pending_players r) = {}"
      using registry_inv_room [OF inv, of rid' r] registry_inv_room(1) [OF inv old]
        id act pend disj by auto
  next
    fix k rid'
    show "map_of (player_room_map m') k = Some rid' \<longleftrightarrow>
             (\<exists>r. get_room m' rid' = Some r \<and> k \<in> members r)"
      unfolding room index
      using registry_inv_index [OF inv, of k rid'] registry_inv_index [OF inv, of pid rid']
        registry_inv_index [OF inv, of k rid] new old mem
      by (cases "k = pid"; cases "rid' = rid") auto
  qed
  then show ?thesis by (simp only: m'_def)
qed

lemma registry_inv_join:
  assumes inv: "registry_inv m"
  shows "registry_inv (fst (join_room m rid pid pname pumo maxp now))"
proof (cases "snd (join_room m rid pid pname pumo maxp now) = (True, msg_joined)
              \<and> fst (join_room m rid pid pname pumo maxp now) \<noteq> m")
  case False
  then show ?thesis
    using inv by (auto simp: join_room_def Let_def split: option.splits if_splits)
next
  case True
  then obtain room where old: "get_room m rid = Some room"
    and new: "pid \<notin> keys (player_room_map m)"
    and res: "fst (join_room m rid pid pname pumo maxp now) =
      (put_room m rid
         (if paused room
          then room\<lparr>pending_players :=
                 AList.update pid ((new_Player pid pname pumo now)\<lparr>status := PENDING\<rparr>)
                   (pending_players room)\<rparr>
          else room\<lparr>active_players :=
                 AList.update pid (new_Player pid pname pumo now) (active_players room)\<rparr>))
        \<lparr>player_room_map := AList.update pid rid (player_room_map m)\<rparr>"
    by (auto simp: join_room_def Let_def split: option.splits if_splits)
  from new have none: "map_of (player_room_map m) pid = None"
    by (simp add: map_of_None_keys)
  have notmem: "pid \<notin> members room"
    using registry_inv_index [OF inv, of pid rid] none old by auto
  note ok = registry_inv_room [OF inv old]
  show ?thesis
    unfolding res
  proof (rule registry_inv_add_member [OF inv old none])
    show "room_id (if paused room
          then room\<lparr>pending_players :=
                 AList.update pid ((new_Player pid pname pumo now)\<lparr>status := PENDING\<rparr>)
                   (pending_players room)\<rparr>
          else room\<lparr>active_players :=
                 AList.update pid (new_Player pid pname pumo now) (active_players room)\<rparr>)
        = room_id room"
      by simp
    show "players_keyed (active_players (if paused room
          then room\<lparr>pending_players :=
                 AList.update pid ((new_Player pid pname pumo now)\<lparr>status := PENDING\<rparr>)
                   (pending_players room)\<rparr>
          else room\<lparr>active_players :=
                 AList.update pid (new_Player pid pname pumo now) (active_players room)\<rparr>))"
      using ok(2) by (simp add: players_keyed_update new_Player_def)
    show "players_keyed (pending_players (if paused room
          then room\<lparr>pending_players :=
                 AList.update pid ((new_Player pid pname pumo now)\<lparr>status := PENDING\<rparr>)
                   (pending_players room)\<rparr>
          else room\<lparr>active_players :=
                 AList.update pid (new_Player pid pname pumo now) (active_players room)\<rparr>))"
      using ok(3) by (simp add: players_keyed_update new_Player_def)
    show "keys (active_players (if paused room
          then room\<lparr>pending_players :=
                 AList.update pid ((new_Player pid pname pumo now)\<lparr>status := PENDING\<rparr>)
                   (pending_players room)\<rparr>
          else room\<lparr>active_players :=
                 AList.update pid (new_Player pid pname pumo now) (active_players room)\<rparr>))
        \<inter> keys (pending_players (if paused room
          then room\<lparr>pending_players :=
                 AList.update pid ((new_Player pid pname pumo now)\<lparr>status := PENDING\<rparr>)
                   (pending_players room)\<rparr>
          else room\<lparr>active_players :=
                 AList.update pid (new_Player pid pname pumo now) (active_players room)\<rparr>))
        = {}"
      using ok(4) notmem by (auto simp: keys_update members_def)
    show "members (if paused room
          then room\<lparr>pending_players :=
                 AList.update pid ((new_Player pid pname pumo now)\<lparr>status := PENDING\<rparr>)
                   (pending_players room)\<rparr>
          else room\<lparr>active_players :=
                 AList.update pid (new_Player pid pname pumo now) (active_players room)\<rparr>)
        = insert pid (members room)"
      by (auto simp: keys_update members_def)
  qed
qed

lemma registry_inv_close:
  assumes inv: "registry_inv m"
  shows "registry_inv (fst (close_room m rid))"
proof (cases "get_room m rid")
  case None
  then show ?thesis using inv by (simp add: close_room_def)
next
  case (Some room)
  define m' where "m' = m\<lparr>player_room_map :=
                fold (\<lambda>p d. AList.delete (player_id p) d) (get_all_players room)
                  (player_room_map m),
             rooms := AList.delete rid (rooms m)\<rparr>"
  have res: "fst (close_room m rid) = m'"
    using Some by (simp add: close_room_def m'_def)
  note ok = registry_inv_room [OF inv Some]
  have ids: "player_id ` set (get_all_players room) = members room"
    using players_keyed_ids [OF ok(2)] players_keyed_ids [OF ok(3)]
    by (simp add: get_all_players_def members_def image_Un)
  have room: "get_room m' rid' = (if rid' = rid then None else get_room m rid')" for rid'
    by (simp add: m'_def get_room_def delete_conv')
  have index: "map_of (player_room_map m') k
                 = (if k \<in> members room then None else map_of (player_room_map m) k)" for k
    by (simp add: m'_def map_of_fold_delete ids)
  have "registry_inv m'"
  proof (rule registry_invI)
    fix rid' r
    assume "get_room m' rid' = Some r"
    then have "get_room m rid' = Some r"
      by (auto simp: room split: if_splits)
    then show "room_id r = rid' \<and> players_keyed (active_players r)
             \<and> players_keyed (pending_players r)
             \<and> keys (active_players r) \<inter> keys (pending_players r) = {}"
      using registry_inv_room [OF inv, of rid' r] by blast
  next
    fix k rid'
    show "map_of (player_room_map m') k = Some rid' \<longleftrightarrow>
             (\<exists>r. get_room m' rid' = Some r \<and> k \<in> members r)"
      unfolding room index
      using registry_inv_index [OF inv, of k rid'] registry_inv_index [OF inv, of k rid] Some
      by (cases "k \<in> members room"; cases "rid' = rid") auto
  qed
  then show ?thesis by (simp only: res)
qed

lemma registry_inv_remove_member:
  assumes inv: "registry_inv m" and old: "get_room m rid = Some room"
    and idx: "map_of (player_room_map m) pid = Some rid"
  shows "registry_inv ((put_room m rid
            (room\<lparr>active_players := AList.delete pid (active_players room),
                  pending_players := AList.delete pid (pending_players room)\<rparr>))
           \<lparr>player_room_map := AList.delete pid (player_room_map m)\<rparr>)"
proof -
  define room' where "room' =
    room\<lparr>active_players := AList.delete pid (active_players room),
         pending_players := AList.delete pid (pending_players room)\<rparr>"
  define m' where "m' = (put_room m rid room')
           \<lparr>player_room_map := AList.delete pid (player_room_map m)\<rparr>"
  have room: "get_room m' rid' = (if rid' = rid then Some room' else get_room m rid')" for rid'
    by (simp add: m'_def get_room_def put_room_def update_conv')
  have index: "map_of (player_room_map m') k
                 = (if k = pid then None else map_of (player_room_map m) k)" for k
    by (simp add: m'_def delete_conv')
  note ok = registry_inv_room [OF inv old]
  have mem: "members room' = members room - {pid}"
    by (auto simp: room'_def members_def keys_delete)
  have new_ok: "room_id room' = rid \<and> players_keyed (active_players room')
             \<and> players_keyed (pending_players room')
             \<and> keys (active_players room') \<inter> keys (pending_players room') = {}"
    using ok by (auto simp: room'_def players_keyed_delete keys_delete)
  have "registry_inv m'"
  proof (rule registry_invI)
    fix rid' r
    assume "get_room m' rid' = Some r"
    then have "r = room' \<and> rid' = rid \<or> get_room m rid' = Some r"
      by (auto simp: room split: if_splits)
    then show "room_id r = rid' \<and> players_keyed (active_players r)
             \<and> players_keyed (pending_players r)
             \<and> keys (active_players r) \<inter> keys (pending_players r) = {}"
      using registry_inv_room [OF inv, of rid' r] new_ok by blast
  next
    fix k rid'
    show "map_of (player_room_map m') k = Some rid' \<longleftrightarrow>
             (\<exists>r. get_room m' rid' = Some r \<and> k \<in> members r)"
      unfolding room index
      using registry_inv_index [OF inv, of k rid'] registry_inv_index [OF inv, of pid rid']
        registry_inv_index [OF inv, of k rid] idx old mem
      by (cases "k = pid"; cases "rid' = rid") auto
  qed
  then show ?thesis by (simp only: m'_def room'_def)
qed

lemma leave_room_unfold:
  assumes "map_of (player_room_map m) pid = Some rid" and "rid \<noteq> []"
    and "get_room m rid = Some room"
  shows "leave_room m pid =
     (let m' = (put_room m rid
                  (room\<lparr>active_players := AList.delete pid (active_players room),
                        pending_players := AList.delete pid (pending_players room)\<rparr>))
                 \<lparr>player_room_map := AList.delete pid (player_room_map m)\<rparr>
      in if pid = host_id room
         then (fst (close_room m' (room_id room)), True, msg_host_left)
         else (m', True, msg_left))"
  using assms by (simp add: leave_room_def get_room_by_player_def get_room_def Let_def)

lemma registry_inv_leave:
  assumes inv: "registry_inv m"
  shows "registry_inv (fst (leave_room m pid))"
proof (cases "get_room_by_player m pid")
  case None
  then show ?thesis using inv by (simp add: leave_room_def)
next
  case (Some room)
  then obtain rid where idx: "map_of (player_room_map m) pid = Some rid"
    and ne: "rid \<noteq> []" and old: "get_room m rid = Some room"
    by (auto simp: get_room_by_player_def get_room_def split: option.splits if_splits)
  note rm = registry_inv_remove_member [OF inv old idx]
  show ?thesis
  proof (cases "pid = host_id room")
    case True
    show ?thesis
      unfolding leave_room_unfold [OF idx ne old] Let_def
      using registry_inv_close [OF rm, of "room_id room"] True by simp
  next
    case False
    show ?thesis
      unfolding leave_room_unfold [OF idx ne old] Let_def
      using rm False by simp
  qed
qed

lemma registry_inv_apply: 
  assumes "registry_inv m"
    and "case op of
           Create hid hname humo rname world tmo ctmo orig new_id now \<Rightarrow>
             new_id \<notin> keys (rooms m)
         | _ \<Rightarrow> True"
  shows "registry_inv (apply_registry_op m op)"
  using assms
  by (cases op)
    (simp_all add: registry_inv_create registry_inv_join registry_inv_leave
      registry_inv_close registry_inv_pause registry_inv_resume)

lemma registry_inv_run:
  "registry_inv m \<Longrightarrow> fresh_ids m ops \<Longrightarrow> registry_inv (run m ops)"
proof (induction ops arbitrary: m)
  case Nil
  then show ?case by simp
next
  case (Cons op ops)
  from Cons.prems have "registry_inv (apply_registry_op m op)"
    by (intro registry_inv_apply) simp_all
  with Cons show ?case by simp
qed


lemma close_room_effect:
  assumes inv: "registry_inv m" and old: "get_room m rid = Some room"
  shows "get_room (fst (close_room m rid)) rid' = (if rid' = rid then None else get_room m rid')"
    and "map_of (player_room_map (fst (close_room m rid))) k
           = (if k \<in> members room then None else map_of (player_room_map m) k)"
proof -
  note ok = registry_inv_room [OF inv old]
  have ids: "player_id ` set (get_all_players room) = members room"
    using players_keyed_ids [OF ok(2)] players_keyed_ids [OF ok(3)]
    by (simp add: get_all_players_def members_def image_Un)
  show "get_room (fst (close_room m rid)) rid' = (if rid' = rid then None else get_room m rid')"
    using old by (simp add: close_room_def get_room_def delete_conv')
  show "map_of (player_room_map (fst (close_room m rid))) k
           = (if k \<in> members room then None else map_of (player_room_map m) k)"
    using old by (simp add: close_room_def map_of_fold_delete ids)
qed

lemma fresh_example_ops: "fresh_ids (RoomManager_init 10) example_ops"
  by (simp add: example_ops_def RoomManager_init_def keys_def create_room_def
      can_create_room_def join_room_def get_room_def put_room_def
      get_active_player_count_def Let_def ascii_def)

lemma registry_example_inv: "registry_inv registry_example"
  unfolding registry_example_def
  by (rule registry_inv_run [OF registry_inv_init fresh_example_ops])

section \<open>The creator leaves\<close>

text \<open>
  Claim C5. In a consistent registry, when the player that leaves is the creator of
  the room the reverse index gives for it, \<open>leave_room\<close> succeeds with the message of
  the closed room; afterwards the room is not in the registry and no member of the room,
  active or pending, the creator among them, is in the reverse index: the creator and
  the n other members are all free. The other rooms and the other entries of the index
  are untouched. Room identifiers are prefixes of a UUID and not empty.
\<close>

theorem creator_leave_closes_room:
  assumes "registry_inv m"
    and "map_of (player_room_map m) host = Some rid" and "rid \<noteq> []"
    and "get_room m rid = Some room" and "host_id room = host"
  shows "snd (leave_room m host) = (True, msg_host_left)
       \<and> get_room (fst (leave_room m host)) rid = None
       \<and> host \<in> members room
       \<and> (\<forall>k \<in> members room. map_of (player_room_map (fst (leave_room m host))) k = None)
       \<and> (\<forall>k. k \<notin> members room \<longrightarrow>
             map_of (player_room_map (fst (leave_room m host))) k
               = map_of (player_room_map m) k)
       \<and> (\<forall>rid'. rid' \<noteq> rid \<longrightarrow>
             get_room (fst (leave_room m host)) rid' = get_room m rid')"
proof -
  define room' where "room' =
    room\<lparr>active_players := AList.delete host (active_players room),
         pending_players := AList.delete host (pending_players room)\<rparr>"
  define m' where "m' = (put_room m rid room')
           \<lparr>player_room_map := AList.delete host (player_room_map m)\<rparr>"
  have inv': "registry_inv m'"
    unfolding m'_def room'_def
    by (rule registry_inv_remove_member [OF assms(1) assms(4) assms(2)])
  have rid: "room_id room = rid"
    by (rule registry_inv_room(1) [OF assms(1) assms(4)])
  have res: "leave_room m host = (fst (close_room m' rid), True, msg_host_left)"
    using assms(5) rid
    by (simp add: leave_room_unfold [OF assms(2) assms(3) assms(4)] Let_def m'_def room'_def)
  have room1: "get_room m' rid' = (if rid' = rid then Some room' else get_room m rid')" for rid'
    by (simp add: m'_def get_room_def put_room_def update_conv')
  have index1: "map_of (player_room_map m') k
                 = (if k = host then None else map_of (player_room_map m) k)" for k
    by (simp add: m'_def delete_conv')
  have mem': "members room' = members room - {host}"
    by (auto simp: room'_def members_def keys_delete)
  have old': "get_room m' rid = Some room'"
    by (simp add: room1)
  note eff = close_room_effect [OF inv' old']
  have host_in: "host \<in> members room"
    using registry_inv_index [OF assms(1), of host rid] assms(2) assms(4) by auto
  have gone: "get_room (fst (leave_room m host)) rid = None"
    by (simp add: res eff(1))
  have freed: "\<forall>k \<in> members room. map_of (player_room_map (fst (leave_room m host))) k = None"
    by (auto simp: res eff(2) index1 mem')
  have others: "\<forall>k. k \<notin> members room \<longrightarrow>
             map_of (player_room_map (fst (leave_room m host))) k
               = map_of (player_room_map m) k"
    using host_in by (auto simp: res eff(2) index1 mem')
  have rooms: "\<forall>rid'. rid' \<noteq> rid \<longrightarrow>
             get_room (fst (leave_room m host)) rid' = get_room m rid'"
    by (simp add: res eff(1) room1)
  have ok: "snd (leave_room m host) = (True, msg_host_left)"
    by (simp add: res)
  from ok gone host_in freed others rooms show ?thesis by (intro conjI)
qed

text \<open>
  The scenario of the specification: the creator leaves a room with three other active
  members; the room closes and the four identities are free.
\<close>

theorem creator_leave_closes_room_witness:
  "map_of (player_room_map registry_example) (ascii ''h'') = Some (ascii ''r1'')
   \<and> ascii ''r1'' \<noteq> []
   \<and> get_room registry_example (ascii ''r1'') = Some room_example
   \<and> host_id room_example = ascii ''h''
   \<and> members room_example = {ascii ''h'', ascii ''a'', ascii ''b'', ascii ''c''}
   \<and> get_room (fst (leave_room registry_example (ascii ''h''))) (ascii ''r1'') = None
   \<and> map_of (player_room_map (fst (leave_room registry_example (ascii ''h'')))) (ascii ''h'')
        = None
   \<and> map_of (player_room_map (fst (leave_room registry_example (ascii ''h'')))) (ascii ''a'')
        = None
   \<and> map_of (player_room_map (fst (leave_room registry_example (ascii ''h'')))) (ascii ''b'')
        = None
   \<and> map_of (player_room_map (fst (leave_room registry_example (ascii ''h'')))) (ascii ''c'')
        = None"
proof -
  have idx: "map_of (player_room_map registry_example) (ascii ''h'') = Some (ascii ''r1'')"
    by (simp add: registry_example_eq ascii_def)
  have ne: "ascii ''r1'' \<noteq> []"
    by (simp add: ascii_def)
  have host: "host_id room_example = ascii ''h''"
    by (simp add: room_example_def)
  have mem: "members room_example = {ascii ''h'', ascii ''a'', ascii ''b'', ascii ''c''}"
    by (simp add: members_def keys_def room_example_def)
  note t = creator_leave_closes_room
             [OF registry_example_inv idx ne registry_example_room host]
  from t have gone: "get_room (fst (leave_room registry_example (ascii ''h''))) (ascii ''r1'')
      = None"
    by blast
  from t have "\<forall>k \<in> members room_example.
      map_of (player_room_map (fst (leave_room registry_example (ascii ''h'')))) k = None"
    by blast
  then have freed:
    "map_of (player_room_map (fst (leave_room registry_example (ascii ''h'')))) (ascii ''h'')
        = None"
    "map_of (player_room_map (fst (leave_room registry_example (ascii ''h'')))) (ascii ''a'')
        = None"
    "map_of (player_room_map (fst (leave_room registry_example (ascii ''h'')))) (ascii ''b'')
        = None"
    "map_of (player_room_map (fst (leave_room registry_example (ascii ''h'')))) (ascii ''c'')
        = None"
    by (simp_all add: mem)
  from idx ne registry_example_room host mem gone freed show ?thesis by (intro conjI)
qed

section \<open>Membership and the reverse index agree\<close>



section \<open>The last action and the round timer\<close>

lemma race_acted_room:
  "get_room (room_manager race_after_act) (ascii ''r1'') =
     Some (duo_room_example\<lparr>active_players :=
        [(ascii ''a'', (player_example ''a'' ''Ann'' ''g1'')
                         \<lparr>status := ACTED, current_action := Some (ascii ''go north''),
                          last_action_time := Some 3\<rparr>),
         (ascii ''b'', (player_example ''b'' ''Bob'' ''g2'')
                         \<lparr>status := ACTED, current_action := Some (ascii ''open door''),
                          last_action_time := Some 29\<rparr>)]\<rparr>)"
  by (simp add: race_after_act_def cmd_act_accept_def get_room_by_player_def Let_def
      duo_plugin_example_def duo_room_example_def get_room_store_room player_example_def
      new_Player_def ascii_def)

lemma race_after_act_fields:
  "timeout_tasks race_after_act = [(ascii ''r1'', RoundTimer (ascii ''r1'') 30)]"
  "snd (snd (cmd_act_accept duo_plugin_example (ascii ''b'') (ascii ''open door'') 29))
     = Some (ascii ''r1'')"
  by (simp_all add: race_after_act_def cmd_act_accept_def get_room_by_player_def Let_def
      duo_plugin_example_def duo_room_example_def store_room_def
      check_all_players_acted_def dict_values_def player_example_def
      new_Player_def ascii_def)

lemma race_fire:
  "round_timer_expire race_after_act (ascii ''r1'') = (race_after_act, Some (ascii ''r1''))"
proof -
  have same: "store_room race_after_act (ascii ''r1'')
      (mark_timeouts (the (get_room (room_manager race_after_act) (ascii ''r1''))))
      = race_after_act"
    by (simp add: race_after_act_def cmd_act_accept_def get_room_by_player_def Let_def
        duo_plugin_example_def duo_room_example_def store_room_def put_room_def get_room_def
        mark_timeouts_def map_values_def player_example_def new_Player_def ascii_def)
  show ?thesis
    using same
    by (simp add: round_timer_expire_def race_acted_room Let_def duo_room_example_def
        dict_values_def mark_timeouts_def map_values_def check_all_players_timeout_def
        player_example_def new_Player_def)
qed

lemma race_begin:
  "process_round_begin race_after_act (ascii ''r1'') = (race_after_act, Some race_actions)"
  unfolding process_round_begin_def race_acted_room
  by (simp add: get_round_actions_def duo_room_example_def Let_def
      dict_values_def truthy_def display_name_def race_actions_def player_example_def
      new_Player_def ascii_def)

lemma race_timer_resolved_room:
  "get_room (room_manager race_timer_resolved) (ascii ''r1'') =
     Some (start_new_round 31
        ((the (get_room (room_manager race_after_act) (ascii ''r1'')))
           \<lparr>history :=
              [\<lparr>round_number = 1, player_actions = race_actions,
                dm_response = ascii ''the door creaks'', timestamp = 31\<rparr>],
            pending_config := \<lparr>pc_timeout = None, correction_text = None\<rparr>\<rparr>))"
  unfolding race_timer_resolved_def race_after_fire_def race_fire fst_conv
    process_round_resume_returned(1) [OF race_acted_room] race_acted_room
  by (simp add: duo_room_example_def truthy_def strip_def py_isspace_def ascii_def)

text \<open>
  Without interruption the command resolves the round once: one record, and round 2.
\<close>

lemma uninterrupted_act_resolves_once:
  "map round_number (history (the (get_room (room_manager
      (process_round race_after_act (ascii ''r1'')
         (LlmReturned (Some (ascii ''the door opens''))) 29)) (ascii ''r1'')))) = [1]
   \<and> current_round (the (get_room (room_manager
      (process_round race_after_act (ascii ''r1'')
         (LlmReturned (Some (ascii ''the door opens''))) 29)) (ascii ''r1''))) = 2"
proof -
  have ne: "get_round_actions (the (get_room (room_manager race_after_act) (ascii ''r1'')))
      \<noteq> []"
    using race_begin
    by (auto simp: process_round_begin_def race_acted_room Let_def split: if_splits)
  have room: "get_room (room_manager race_after_act) (ascii ''r1'')
      = Some (the (get_room (room_manager race_after_act) (ascii ''r1'')))"
    by (simp add: race_acted_room)
  show ?thesis
    unfolding process_round_with_actions [OF room ne]
      process_round_resume_returned(1) [OF room]
    by (simp add: race_acted_room start_new_round_def duo_room_example_def)
qed

text \<open>
  Claim C1 fails on the code. Bob's action makes every active player ACTED and
  \<open>cmd_act\<close> starts the resolution, which suspends on the backend holding the snapshot
  of the two actions; the round timer is still registered, since only \<open>_start_timeout\<close>
  at the very end of \<open>_process_round\<close> replaces it. The timer fires, its check passes the
  guard (the room is ACTIVE, not paused, and not every player is TIMEOUT) and starts a
  second resolution of the same actions. The backend answers the timer's call, then the
  command's: two GameHistory records are appended for the actions of round 1, numbered 1
  and 2, and the round number goes from 1 to 3.
\<close>

theorem round_race_resolves_twice:
  "current_round duo_room_example = 1 \<and> history duo_room_example = []
   \<and> snd (snd (cmd_act_accept duo_plugin_example (ascii ''b'') (ascii ''open door'') 29))
        = Some (ascii ''r1'')
   \<and> process_round_begin race_after_act (ascii ''r1'') = (race_after_act, Some race_actions)
   \<and> map_of (timeout_tasks race_after_act) (ascii ''r1'') = Some (RoundTimer (ascii ''r1'') 30)
   \<and> snd (round_timer_expire race_after_act (ascii ''r1'')) = Some (ascii ''r1'')
   \<and> process_round_begin race_after_fire (ascii ''r1'') = (race_after_fire, Some race_actions)
   \<and> map round_number (history (the (get_room (room_manager race_final) (ascii ''r1''))))
        = [1, 2]
   \<and> map player_actions (history (the (get_room (room_manager race_final) (ascii ''r1''))))
        = [race_actions, race_actions]
   \<and> current_round (the (get_room (room_manager race_final) (ascii ''r1''))) = 3"
proof -
  have fire: "race_after_fire = race_after_act"
    by (simp add: race_after_fire_def race_fire)
  have final: "get_room (room_manager race_final) (ascii ''r1'') =
     Some (start_new_round 32
        ((the (get_room (room_manager race_timer_resolved) (ascii ''r1'')))
           \<lparr>history := history (the (get_room (room_manager race_timer_resolved) (ascii ''r1'')))
              @ [\<lparr>round_number =
                    current_round (the (get_room (room_manager race_timer_resolved) (ascii ''r1''))),
                  player_actions = race_actions,
                  dm_response = ascii ''the door opens'', timestamp = 32\<rparr>],
            pending_config := \<lparr>pc_timeout = None, correction_text = None\<rparr>\<rparr>))"
    unfolding race_final_def
      process_round_resume_returned(1) [OF race_timer_resolved_room]
    by (simp add: race_timer_resolved_room race_acted_room start_new_round_def
        duo_room_example_def truthy_def strip_def py_isspace_def)
       (simp add: ascii_def strip_def py_isspace_def)
  have rounds: "map round_number (history (the (get_room (room_manager race_final) (ascii ''r1''))))
        = [1, 2]"
    and acts: "map player_actions (history (the (get_room (room_manager race_final) (ascii ''r1''))))
        = [race_actions, race_actions]"
    and last_round: "current_round (the (get_room (room_manager race_final) (ascii ''r1''))) = 3"
    by (simp_all add: final race_timer_resolved_room race_acted_room start_new_round_def
        duo_room_example_def)
  have timer: "map_of (timeout_tasks race_after_act) (ascii ''r1'')
      = Some (RoundTimer (ascii ''r1'') 30)"
    by (simp add: race_after_act_fields)
  have fired: "snd (round_timer_expire race_after_act (ascii ''r1'')) = Some (ascii ''r1'')"
    by (simp add: race_fire)
  have again: "process_round_begin race_after_fire (ascii ''r1'')
      = (race_after_fire, Some race_actions)"
    by (simp add: fire race_begin)
  from duo_room_example_facts(4) duo_room_example_facts(3) race_after_act_fields(2)
    race_begin timer fired again rounds acts last_round
  show ?thesis by (intro conjI)
qed

end
